theory Spec2Isabelle
  imports Complex_Main
begin

section \<open>The numeric type of the estimator\<close>

text \<open>
  Every number the estimator stores is a Go \<open>float64\<close>. The model keeps the special
  values that the algorithm depends on (not-a-number and the two infinities) and takes
  the finite values as real numbers, so rounding, overflow and the sign of zero are not
  part of the model. All divisors of the program are counts, hence never a negative zero.
\<close>

datatype float64 = Fin real | PInf | NInf | NaN

fun is_nan :: "float64 \<Rightarrow> bool" where
  "is_nan NaN = True"
| "is_nan _ = False"



fun fneg :: "float64 \<Rightarrow> float64" where
  "fneg (Fin x) = Fin (- x)"
| "fneg PInf = NInf"
| "fneg NInf = PInf"
| "fneg NaN = NaN"

fun fadd :: "float64 \<Rightarrow> float64 \<Rightarrow> float64" where
  "fadd (Fin x) (Fin y) = Fin (x + y)"
| "fadd NaN _ = NaN"
| "fadd _ NaN = NaN"
| "fadd PInf NInf = NaN"
| "fadd NInf PInf = NaN"
| "fadd PInf _ = PInf"
| "fadd NInf _ = NInf"
| "fadd _ PInf = PInf"
| "fadd _ NInf = NInf"

definition fsub :: "float64 \<Rightarrow> float64 \<Rightarrow> float64" where
  "fsub a b = fadd a (fneg b)"

fun inf_signed :: "bool \<Rightarrow> float64" where
  "inf_signed True = PInf"
| "inf_signed False = NInf"

fun fmul :: "float64 \<Rightarrow> float64 \<Rightarrow> float64" where
  "fmul (Fin x) (Fin y) = Fin (x * y)"
| "fmul NaN _ = NaN"
| "fmul _ NaN = NaN"
| "fmul PInf (Fin y) = (if y = 0 then NaN else inf_signed (0 < y))"
| "fmul NInf (Fin y) = (if y = 0 then NaN else inf_signed (y < 0))"
| "fmul (Fin x) PInf = (if x = 0 then NaN else inf_signed (0 < x))"
| "fmul (Fin x) NInf = (if x = 0 then NaN else inf_signed (x < 0))"
| "fmul PInf PInf = PInf"
| "fmul PInf NInf = NInf"
| "fmul NInf PInf = NInf"
| "fmul NInf NInf = PInf"

fun fdiv :: "float64 \<Rightarrow> float64 \<Rightarrow> float64" where
  "fdiv (Fin x) (Fin y) =
     (if y = 0 then (if x = 0 then NaN else inf_signed (0 < x)) else Fin (x / y))"
| "fdiv NaN _ = NaN"
| "fdiv _ NaN = NaN"
| "fdiv (Fin x) PInf = Fin 0"
| "fdiv (Fin x) NInf = Fin 0"
| "fdiv PInf (Fin y) = inf_signed (0 \<le> y)"
| "fdiv NInf (Fin y) = inf_signed (y < 0)"
| "fdiv PInf PInf = NaN"
| "fdiv PInf NInf = NaN"
| "fdiv NInf PInf = NaN"
| "fdiv NInf NInf = NaN"

text \<open>Go's \<open><\<close> on \<open>float64\<close>: every comparison with not-a-number is false.\<close>

fun fless :: "float64 \<Rightarrow> float64 \<Rightarrow> bool" where
  "fless (Fin x) (Fin y) = (x < y)"
| "fless NaN _ = False"
| "fless _ NaN = False"
| "fless NInf NInf = False"
| "fless NInf _ = True"
| "fless _ NInf = False"
| "fless PInf _ = False"
| "fless _ PInf = True"

section \<open>Failures of the Go runtime and of the specification\<close>

text \<open>
  \<open>EmptyTrainingSet\<close> and \<open>InvalidConfig\<close> are the error kinds the specification names.
  The other three are the run-time panics the source can raise: an index out of range,
  \<open>make\<close> with a negative length, and gonum's \<open>floats.Div\<close> on slices of different
  lengths.
\<close>

datatype error =
    EmptyTrainingSet
  | InvalidConfig
  | IndexOutOfRange
  | MakesliceLenOutOfRange
  | SliceLengthMismatch

fun bindE :: "error + 'a \<Rightarrow> ('a \<Rightarrow> error + 'b) \<Rightarrow> error + 'b" where
  "bindE (Inl e) f = Inl e"
| "bindE (Inr x) f = f x"

text \<open>A \<open>for ... range\<close> loop whose body may panic: the first panic ends the loop.\<close>

fun foldE :: "('a \<Rightarrow> 's \<Rightarrow> error + 's) \<Rightarrow> 'a list \<Rightarrow> 's \<Rightarrow> error + 's" where
  "foldE f [] s = Inr s"
| "foldE f (x # xs) s = bindE (f x s) (foldE f xs)"

text \<open>Slice reads and writes with Go's bounds check.\<close>

definition nthE :: "'a list \<Rightarrow> nat \<Rightarrow> error + 'a" where
  "nthE xs i = (if i < length xs then Inr (xs ! i) else Inl IndexOutOfRange)"

text \<open>\<open>xs[i] = f(xs[i])\<close>, which covers \<open>=\<close>, \<open>+=\<close>, \<open>/=\<close> and \<open>++\<close>.\<close>

definition updE :: "'a list \<Rightarrow> nat \<Rightarrow> ('a \<Rightarrow> 'a) \<Rightarrow> error + 'a list" where
  "updE xs i f = (if i < length xs then Inr (xs[i := f (xs ! i)]) else Inl IndexOutOfRange)"

definition nth2E :: "'a list list \<Rightarrow> nat \<Rightarrow> nat \<Rightarrow> error + 'a" where
  "nth2E m i j = bindE (nthE m i) (\<lambda>row. nthE row j)"

definition upd2E :: "'a list list \<Rightarrow> nat \<Rightarrow> nat \<Rightarrow> ('a \<Rightarrow> 'a) \<Rightarrow> error + 'a list list" where
  "upd2E m i j f = bindE (nthE m i) (\<lambda>row. bindE (updE row j f) (\<lambda>row'. Inr (m[i := row'])))"

section \<open>Numeric utilities\<close>

text \<open>
  The estimator calls helpers that the repository defines in other files. Each of them
  is modelled from what the specification says of it.
\<close>

text \<open>Go's builtin \<open>make([]float64, n)\<close>: a zero-filled slice, or a panic on a negative
  length.\<close>

definition make_slice :: "int \<Rightarrow> error + float64 list" where
  "make_slice n = (if n < 0 then Inl MakesliceLenOutOfRange else Inr (replicate (nat n) (Fin 0)))"

text \<open>Modelled from the spec: \<open>newZeroMatrix\<close> is not in the estimator's file; it is the
  zero-initialised dense allocation of \<open>row\<close> rows of \<open>col\<close> cells, made with \<open>make\<close>.\<close>

definition newZeroMatrix :: "int \<Rightarrow> int \<Rightarrow> error + float64 list list" where
  "newZeroMatrix row col =
     (if row < 0 then Inl MakesliceLenOutOfRange
      else if 0 < row \<and> col < 0 then Inl MakesliceLenOutOfRange
      else Inr (replicate (nat row) (replicate (nat col) (Fin 0))))"

text \<open>Modelled from the spec: \<open>newNanMatrix\<close> is not in the estimator's file; it is the
  dense matrix filled with the sentinel for "no observation", which is not-a-number.\<close>

definition newNanMatrix :: "int \<Rightarrow> int \<Rightarrow> error + float64 list list" where
  "newNanMatrix row col =
     (if row < 0 then Inl MakesliceLenOutOfRange
      else if 0 < row \<and> col < 0 then Inl MakesliceLenOutOfRange
      else Inr (replicate (nat row) (replicate (nat col) NaN)))"

text \<open>Modelled from the spec: \<open>resetZeroVector\<close> is not in the estimator's file; it
  overwrites a vector with zeros.\<close>

definition resetZeroVector :: "float64 list \<Rightarrow> float64 list" where
  "resetZeroVector a = replicate (length a) (Fin 0)"

text \<open>Modelled from the spec: \<open>resetZeroMatrix\<close> is not in the estimator's file; it
  overwrites every row of a matrix with zeros.\<close>

definition resetZeroMatrix :: "float64 list list \<Rightarrow> float64 list list" where
  "resetZeroMatrix m = map resetZeroVector m"

text \<open>Modelled from the spec: the type \<open>IdRating\<close> is not in the estimator's file; it is
  one entry of an adjacency list, the dense index of the other side and the rating.\<close>

record IdRating =
  Id :: nat
  Rating :: float64

text \<open>Modelled from the spec: \<open>means\<close> is not in the estimator's file; it gives the mean
  rating of every adjacency list, the sum of the ratings divided by their number.\<close>

definition means :: "IdRating list list \<Rightarrow> float64 list" where
  "means a =
     map (\<lambda>row. fdiv (fold (\<lambda>ir s. fadd s (Rating ir)) row (Fin 0))
                     (fold (\<lambda>ir c. fadd c (Fin 1)) row (Fin 0))) a"

text \<open>gonum's \<open>floats.Div(dst, s)\<close>: element-wise \<open>dst[i] /= s[i]\<close>, and a panic when the
  lengths differ.\<close>

definition floats_Div :: "float64 list \<Rightarrow> float64 list \<Rightarrow> error + float64 list" where
  "floats_Div dst s =
     (if length dst \<noteq> length s then Inl SliceLengthMismatch
      else Inr (map (\<lambda>(d, c). fdiv d c) (zip dst s)))"

section \<open>Identifier maps, training set, parameters\<close>

text \<open>
  Dense indices, counts and cluster labels are natural numbers: the generator draws the
  labels from \<open>[0, hi)\<close>, the indices are positions in the identifier maps, and the loop
  counters start at zero. The cluster counts and the number of epochs are integers, as
  the configuration may hold any \<open>int\<close>.
\<close>

text \<open>Modelled from the spec: the identifier map is not in the estimator's file. It is
  the list of the external identifiers in first-seen order, so the dense index of an
  identifier is its position, and an unseen identifier resolves to the sentinel \<open>NewId\<close>.\<close>

datatype dense_id = Dense nat | NewId

fun ToDenseId_from :: "nat \<Rightarrow> int list \<Rightarrow> int \<Rightarrow> dense_id" where
  "ToDenseId_from k [] e = NewId"
| "ToDenseId_from k (x # xs) e = (if x = e then Dense k else ToDenseId_from (Suc k) xs e)"

definition ToDenseId :: "int list \<Rightarrow> int \<Rightarrow> dense_id" where
  "ToDenseId ids e = ToDenseId_from 0 ids e"

text \<open>Modelled from the spec: the type \<open>TrainSet\<close> is not in the estimator's file. It
  holds the two counts, the global mean, the adjacency lists by user and by item (the
  results of \<open>UserRatings()\<close> and \<open>ItemRatings()\<close>) and the two identifier maps.\<close>

record TrainSet =
  UserCount :: nat
  ItemCount :: nat
  TrainGlobalMean :: float64
  UserRatings :: "IdRating list list"
  ItemRatings :: "IdRating list list"
  TrainUserIdSet :: "int list"
  TrainItemIdSet :: "int list"

text \<open>Modelled from the spec: the parameter table and \<open>GetInt\<close> are not in the
  estimator's file. \<open>GetInt\<close> returns the value stored under a name, or the default.\<close>

type_synonym Params = "(string \<times> int) list"

definition GetInt :: "Params \<Rightarrow> string \<Rightarrow> int \<Rightarrow> int" where
  "GetInt p name dflt = (case map_of p name of Some v \<Rightarrow> v | None \<Rightarrow> dflt)"

section \<open>The estimator\<close>

record CoClustering =
  Params :: Params
  UserIdSet :: "int list"
  ItemIdSet :: "int list"
  GlobalMean :: float64
  UserMeans :: "float64 list"
  ItemMeans :: "float64 list"
  UserClusters :: "nat list"
  ItemClusters :: "nat list"
  UserClusterMeans :: "float64 list"
  ItemClusterMeans :: "float64 list"
  CoClusterMeans :: "float64 list list"

definition NewCoClustering :: "Params \<Rightarrow> CoClustering" where
  "NewCoClustering params =
     \<lparr>Params = params, UserIdSet = [], ItemIdSet = [], GlobalMean = Fin 0,
      UserMeans = [], ItemMeans = [], UserClusters = [], ItemClusters = [],
      UserClusterMeans = [], ItemClusterMeans = [], CoClusterMeans = []\<rparr>"

subsection \<open>Predict\<close>

definition Predict :: "CoClustering \<Rightarrow> int \<Rightarrow> int \<Rightarrow> error + float64" where
  "Predict coc userId itemId =
     (case (ToDenseId (UserIdSet coc) userId, ToDenseId (ItemIdSet coc) itemId) of
        (Dense innerUserId, Dense innerItemId) \<Rightarrow>
          bindE (nthE (UserClusters coc) innerUserId) (\<lambda>userCluster.
          bindE (nthE (ItemClusters coc) innerItemId) (\<lambda>itemCluster.
          bindE (nthE (UserMeans coc) innerUserId) (\<lambda>um.
          bindE (nthE (ItemMeans coc) innerItemId) (\<lambda>im.
          bindE (nthE (UserClusterMeans coc) userCluster) (\<lambda>ucm.
          bindE (nthE (ItemClusterMeans coc) itemCluster) (\<lambda>icm.
          bindE (nth2E (CoClusterMeans coc) userCluster itemCluster) (\<lambda>ccm.
          Inr (fadd (fsub (fsub (fadd um im) ucm) icm) ccm))))))))
      | (Dense innerUserId, NewId) \<Rightarrow> nthE (UserMeans coc) innerUserId
      | (NewId, Dense innerItemId) \<Rightarrow> nthE (ItemMeans coc) innerItemId
      | (NewId, NewId) \<Rightarrow> Inr (GlobalMean coc))"

subsection \<open>Block statistics\<close>

text \<open>The body of both loops of \<open>clusterMean\<close>: \<open>dst[cluster] += ir.Rating; count[cluster]++\<close>.\<close>

definition clusterMean_add ::
  "nat \<Rightarrow> IdRating \<Rightarrow> float64 list \<times> float64 list \<Rightarrow> error + float64 list \<times> float64 list" where
  "clusterMean_add cluster ir = (\<lambda>(dst, count).
     bindE (updE dst cluster (\<lambda>v. fadd v (Rating ir))) (\<lambda>dst'.
     bindE (updE count cluster (\<lambda>c. fadd c (Fin 1))) (\<lambda>count'.
     Inr (dst', count'))))"

definition clusterMean ::
  "float64 list \<Rightarrow> nat list \<Rightarrow> IdRating list list \<Rightarrow> error + float64 list" where
  "clusterMean dst clusters idRatings =
     bindE (foldE (\<lambda>(id, cluster) acc.
              bindE (nthE idRatings id) (\<lambda>row. foldE (clusterMean_add cluster) row acc))
            (enumerate 0 clusters)
            (resetZeroVector dst, replicate (length dst) (Fin 0)))
       (\<lambda>(dst', count). floats_Div dst' count)"

definition coClusterMean_add ::
  "nat list \<Rightarrow> nat \<Rightarrow> IdRating \<Rightarrow> float64 list list \<times> float64 list list
     \<Rightarrow> error + float64 list list \<times> float64 list list" where
  "coClusterMean_add itemClusters userCluster ir = (\<lambda>(dst, count).
     bindE (nthE itemClusters (Id ir)) (\<lambda>itemCluster.
     bindE (upd2E count userCluster itemCluster (\<lambda>c. fadd c (Fin 1))) (\<lambda>count'.
     bindE (upd2E dst userCluster itemCluster (\<lambda>v. fadd v (Rating ir))) (\<lambda>dst'.
     Inr (dst', count')))))"

text \<open>The closing double loop of \<open>coClusterMean\<close>: \<open>dst[i][j] /= count[i][j]\<close>.\<close>

definition matrix_div :: "float64 list list \<Rightarrow> float64 list list \<Rightarrow> error + float64 list list" where
  "matrix_div dst count =
     foldE (\<lambda>i d. bindE (nthE d i) (\<lambda>row.
              foldE (\<lambda>j d. bindE (nth2E count i j) (\<lambda>c. upd2E d i j (\<lambda>v. fdiv v c)))
                [0..<length row] d))
       [0..<length dst] dst"

definition coClusterMean ::
  "float64 list list \<Rightarrow> nat list \<Rightarrow> nat list \<Rightarrow> IdRating list list \<Rightarrow> error + float64 list list" where
  "coClusterMean dst userClusters itemClusters userRatings =
     bindE (nthE dst 0) (\<lambda>dst0.
     bindE (newZeroMatrix (int (length dst)) (int (length dst0))) (\<lambda>count.
     bindE (foldE (\<lambda>(userId, userCluster) acc.
              bindE (nthE userRatings userId) (\<lambda>row.
                foldE (coClusterMean_add itemClusters userCluster) row acc))
            (enumerate 0 userClusters) (resetZeroMatrix dst, count))
       (\<lambda>(dst', count'). matrix_div dst' count')))"

subsection \<open>The intermediate of the user sweep\<close>

text \<open>
  Lines 90 to 102 of \<open>Fit\<close>. The first inner loop adds the residuals of user \<open>i\<close> into
  the cell of the item's cluster and counts them; the second divides every cell of the
  row by its count and adds the item-cluster mean.
\<close>

definition tmp2_add ::
  "nat list \<Rightarrow> float64 list list \<Rightarrow> nat \<Rightarrow> IdRating
     \<Rightarrow> float64 list list \<times> float64 list list \<Rightarrow> error + float64 list list \<times> float64 list list" where
  "tmp2_add itemClusters tmp1 i ir = (\<lambda>(tmp2, count2).
     bindE (nthE itemClusters (Id ir)) (\<lambda>itemClass.
     bindE (nth2E tmp1 i (Id ir)) (\<lambda>t.
     bindE (upd2E tmp2 i itemClass (\<lambda>v. fadd v t)) (\<lambda>tmp2'.
     bindE (upd2E count2 i itemClass (\<lambda>c. fadd c (Fin 1))) (\<lambda>count2'.
     Inr (tmp2', count2'))))))"

definition tmp2_norm ::
  "float64 list list \<Rightarrow> float64 list \<Rightarrow> nat \<Rightarrow> nat \<Rightarrow> float64 list list \<Rightarrow> error + float64 list list" where
  "tmp2_norm count2 itemClusterMeans i h tmp2 =
     bindE (nth2E count2 i h) (\<lambda>c.
     bindE (upd2E tmp2 i h (\<lambda>v. fdiv v c)) (\<lambda>tmp2'.
     bindE (nthE itemClusterMeans h) (\<lambda>m.
     upd2E tmp2' i h (\<lambda>v. fadd v m))))"

definition Fit_tmp2 ::
  "nat \<Rightarrow> int \<Rightarrow> IdRating list list \<Rightarrow> nat list \<Rightarrow> float64 list \<Rightarrow> float64 list list
     \<Rightarrow> error + float64 list list" where
  "Fit_tmp2 userCount nItemClusters userRatings itemClusters itemClusterMeans tmp1 =
     bindE (newZeroMatrix (int userCount) nItemClusters) (\<lambda>tmp2.
     bindE (newZeroMatrix (int userCount) nItemClusters) (\<lambda>count2.
     bindE (foldE (\<lambda>i (tmp2, count2).
              bindE (nthE userRatings i) (\<lambda>row.
              bindE (foldE (tmp2_add itemClusters tmp1 i) row (tmp2, count2)) (\<lambda>(tmp2, count2).
              bindE (nthE tmp2 i) (\<lambda>trow.
              bindE (foldE (tmp2_norm count2 itemClusterMeans i) [0..<length trow] tmp2) (\<lambda>tmp2.
              Inr (tmp2, count2))))))
            [0..<length tmp2] (tmp2, count2))
       (\<lambda>(tmp2, count2). Inr tmp2)))"

subsection \<open>Reassignment\<close>

text \<open>
  The cost of candidate \<open>g\<close> for user \<open>i\<close> (lines 108 to 114): cells of the intermediate
  that are not-a-number are skipped.
\<close>

definition user_cost ::
  "float64 list list \<Rightarrow> float64 list list \<Rightarrow> float64 list \<Rightarrow> int \<Rightarrow> nat \<Rightarrow> nat \<Rightarrow> error + float64" where
  "user_cost tmp2 coClusterMeans userClusterMeans nItemClusters i g =
     foldE (\<lambda>h cost.
        bindE (nth2E tmp2 i h) (\<lambda>t.
        if \<not> is_nan t then
          bindE (nth2E coClusterMeans g h) (\<lambda>c.
          bindE (nthE userClusterMeans g) (\<lambda>m.
          let temp = fadd (fsub t c) m in Inr (fadd cost (fmul temp temp))))
        else Inr cost))
       [0..<nat nItemClusters] (Fin 0)"

text \<open>The cost of candidate \<open>h\<close> for item \<open>j\<close> (lines 141 to 147).\<close>

definition item_cost ::
  "float64 list list \<Rightarrow> float64 list list \<Rightarrow> float64 list \<Rightarrow> int \<Rightarrow> nat \<Rightarrow> nat \<Rightarrow> error + float64" where
  "item_cost tmp3 coClusterMeans itemClusterMeans nUserClusters j h =
     foldE (\<lambda>g cost.
        bindE (nth2E tmp3 g j) (\<lambda>t.
        if \<not> is_nan t then
          bindE (nth2E coClusterMeans g h) (\<lambda>c.
          bindE (nthE itemClusterMeans h) (\<lambda>m.
          let temp = fadd (fsub t c) m in Inr (fadd cost (fmul temp temp))))
        else Inr cost))
       [0..<nat nUserClusters] (Fin 0)"

text \<open>
  The selection loop shared by both sweeps (lines 105 to 119 and 138 to 152):
  \<open>bestCluster, leastCost := current, +Inf\<close>, then every candidate in ascending order
  replaces the best one when its cost is strictly less.
\<close>

definition best_step :: "(nat \<Rightarrow> error + float64) \<Rightarrow> nat \<Rightarrow> nat \<times> float64 \<Rightarrow> error + nat \<times> float64" where
  "best_step cost g = (\<lambda>(bestCluster, leastCost).
     bindE (cost g) (\<lambda>c.
     if fless c leastCost then Inr (g, c) else Inr (bestCluster, leastCost)))"

definition reassign :: "(nat \<Rightarrow> error + float64) \<Rightarrow> int \<Rightarrow> nat \<Rightarrow> error + nat" where
  "reassign cost nClusters current =
     bindE (foldE (best_step cost) [0..<nat nClusters] (current, PInf))
       (\<lambda>(bestCluster, leastCost). Inr bestCluster)"

definition sweep :: "(nat \<Rightarrow> nat \<Rightarrow> error + float64) \<Rightarrow> int \<Rightarrow> nat list \<Rightarrow> error + nat list" where
  "sweep cost nClusters clusters =
     foldE (\<lambda>i cl.
        bindE (nthE cl i) (\<lambda>current.
        bindE (reassign (cost i) nClusters current) (\<lambda>bestCluster.
        updE cl i (\<lambda>_. bestCluster))))
       [0..<length clusters] clusters"

subsection \<open>The intermediate of the item sweep\<close>

text \<open>Lines 123 to 135 of \<open>Fit\<close>, column by column.\<close>

definition tmp3_add ::
  "nat list \<Rightarrow> float64 list list \<Rightarrow> nat \<Rightarrow> IdRating
     \<Rightarrow> float64 list list \<times> float64 list list \<Rightarrow> error + float64 list list \<times> float64 list list" where
  "tmp3_add userClusters tmp1 j ur = (\<lambda>(tmp3, count3).
     bindE (nthE userClusters (Id ur)) (\<lambda>userClass.
     bindE (nth2E tmp1 (Id ur) j) (\<lambda>t.
     bindE (upd2E tmp3 userClass j (\<lambda>v. fadd v t)) (\<lambda>tmp3'.
     bindE (upd2E count3 userClass j (\<lambda>c. fadd c (Fin 1))) (\<lambda>count3'.
     Inr (tmp3', count3'))))))"

definition tmp3_norm ::
  "float64 list list \<Rightarrow> float64 list \<Rightarrow> nat \<Rightarrow> nat \<Rightarrow> float64 list list \<Rightarrow> error + float64 list list" where
  "tmp3_norm count3 userClusterMeans j g tmp3 =
     bindE (nth2E count3 g j) (\<lambda>c.
     bindE (upd2E tmp3 g j (\<lambda>v. fdiv v c)) (\<lambda>tmp3'.
     bindE (nthE userClusterMeans g) (\<lambda>m.
     upd2E tmp3' g j (\<lambda>v. fadd v m))))"

definition Fit_tmp3 ::
  "int \<Rightarrow> nat \<Rightarrow> IdRating list list \<Rightarrow> nat list \<Rightarrow> nat list \<Rightarrow> float64 list \<Rightarrow> float64 list list
     \<Rightarrow> error + float64 list list" where
  "Fit_tmp3 nUserClusters itemCount itemRatings itemClusters userClusters userClusterMeans tmp1 =
     bindE (newZeroMatrix nUserClusters (int itemCount)) (\<lambda>tmp3.
     bindE (newZeroMatrix nUserClusters (int itemCount)) (\<lambda>count3.
     bindE (foldE (\<lambda>j (tmp3, count3).
              bindE (nthE itemRatings j) (\<lambda>col.
              bindE (foldE (tmp3_add userClusters tmp1 j) col (tmp3, count3)) (\<lambda>(tmp3, count3).
              bindE (foldE (tmp3_norm count3 userClusterMeans j) [0..<length tmp3] tmp3) (\<lambda>tmp3.
              Inr (tmp3, count3)))))
            [0..<length itemClusters] (tmp3, count3))
       (\<lambda>(tmp3, count3). Inr tmp3)))"

subsection \<open>Fit\<close>

text \<open>The residual matrix (lines 77 to 82): not-a-number except at the observed cells.\<close>

definition Fit_tmp1 ::
  "nat \<Rightarrow> nat \<Rightarrow> IdRating list list \<Rightarrow> float64 list \<Rightarrow> float64 list \<Rightarrow> error + float64 list list" where
  "Fit_tmp1 userCount itemCount userRatings userMeans itemMeans =
     bindE (newNanMatrix (int userCount) (int itemCount)) (\<lambda>tmp1.
     foldE (\<lambda>i tmp1.
        bindE (nthE userRatings i) (\<lambda>row.
        foldE (\<lambda>idRating tmp1.
           bindE (nthE userMeans i) (\<lambda>um.
           bindE (nthE itemMeans (Id idRating)) (\<lambda>im.
           upd2E tmp1 i (Id idRating) (\<lambda>_. fsub (fsub (Rating idRating) um) im))))
          row tmp1))
       [0..<length tmp1] tmp1)"

text \<open>One pass of the clustering loop (lines 85 to 154).\<close>

definition Fit_epoch ::
  "int \<Rightarrow> int \<Rightarrow> TrainSet \<Rightarrow> float64 list list \<Rightarrow> CoClustering \<Rightarrow> error + CoClustering" where
  "Fit_epoch nUserClusters nItemClusters trainSet tmp1 coc =
     bindE (clusterMean (UserClusterMeans coc) (UserClusters coc) (UserRatings trainSet)) (\<lambda>ucm.
     bindE (clusterMean (ItemClusterMeans coc) (ItemClusters coc) (ItemRatings trainSet)) (\<lambda>icm.
     bindE (coClusterMean (CoClusterMeans coc) (UserClusters coc) (ItemClusters coc)
              (UserRatings trainSet)) (\<lambda>ccm.
     bindE (Fit_tmp2 (UserCount trainSet) nItemClusters (UserRatings trainSet)
              (ItemClusters coc) icm tmp1) (\<lambda>tmp2.
     bindE (sweep (user_cost tmp2 ccm ucm nItemClusters) nUserClusters (UserClusters coc)) (\<lambda>uc.
     bindE (Fit_tmp3 nUserClusters (ItemCount trainSet) (ItemRatings trainSet)
              (ItemClusters coc) uc ucm tmp1) (\<lambda>tmp3.
     bindE (sweep (item_cost tmp3 ccm icm nUserClusters) nItemClusters (ItemClusters coc)) (\<lambda>ic.
     Inr (coc\<lparr>UserClusters := uc, ItemClusters := ic, UserClusterMeans := ucm,
              ItemClusterMeans := icm, CoClusterMeans := ccm\<rparr>))))))))"

text \<open>Modelled from the spec: \<open>Base.Fit\<close> is not in the estimator's file. It takes
  over the identifier maps of the training set and seeds the random generator.\<close>

definition Base_Fit :: "CoClustering \<Rightarrow> TrainSet \<Rightarrow> CoClustering" where
  "Base_Fit coc trainSet =
     coc\<lparr>UserIdSet := TrainUserIdSet trainSet, ItemIdSet := TrainItemIdSet trainSet\<rparr>"

text \<open>
  The random generator is not in the estimator's file either, and nothing but its
  interface is known. It is a parameter of the model: \<open>rng\<close> is its state after seeding
  and \<open>mk rng size low high\<close> stands for \<open>MakeUniformVectorInt(size, low, high)\<close>, which
  returns the vector and the next state. The generator's state is not a field of the
  fitted state.
\<close>

definition Fit ::
  "('r \<Rightarrow> nat \<Rightarrow> int \<Rightarrow> int \<Rightarrow> nat list \<times> 'r) \<Rightarrow> 'r \<Rightarrow> CoClustering \<Rightarrow> TrainSet
     \<Rightarrow> error + CoClustering" where
  "Fit mk rng coc0 trainSet =
     (let coc = Base_Fit coc0 trainSet;
          nUserClusters = GetInt (Params coc) ''nUserClusters'' 3;
          nItemClusters = GetInt (Params coc) ''nItemClusters'' 3;
          nEpochs = GetInt (Params coc) ''nEpochs'' 20;
          userRatings = UserRatings trainSet;
          itemRatings = ItemRatings trainSet;
          (userClusters, rng1) = mk rng (UserCount trainSet) 0 nUserClusters;
          (itemClusters, rng2) = mk rng1 (ItemCount trainSet) 0 nItemClusters
      in
        bindE (make_slice nUserClusters) (\<lambda>ucm.
        bindE (make_slice nItemClusters) (\<lambda>icm.
        bindE (newZeroMatrix nUserClusters nItemClusters) (\<lambda>ccm.
        bindE (Fit_tmp1 (UserCount trainSet) (ItemCount trainSet) userRatings
                 (means userRatings) (means itemRatings)) (\<lambda>tmp1.
        foldE (\<lambda>ep. Fit_epoch nUserClusters nItemClusters trainSet tmp1) [0..<nat nEpochs]
          (coc\<lparr>GlobalMean := TrainGlobalMean trainSet,
               UserMeans := means userRatings, ItemMeans := means itemRatings,
               UserClusters := userClusters, ItemClusters := itemClusters,
               UserClusterMeans := ucm, ItemClusterMeans := icm,
               CoClusterMeans := ccm\<rparr>))))))"

section \<open>Shapes and well-formed inputs\<close>

text \<open>A dense matrix of \<open>r\<close> rows, each of \<open>c\<close> cells.\<close>

definition mat_shape :: "nat \<Rightarrow> nat \<Rightarrow> 'a list list \<Rightarrow> bool" where
  "mat_shape r c m \<longleftrightarrow> length m = r \<and> list_all (\<lambda>row. length row = c) m"

text \<open>Every rating of an adjacency list refers to a dense index below \<open>n\<close>.\<close>

definition ratings_ok :: "nat \<Rightarrow> IdRating list list \<Rightarrow> bool" where
  "ratings_ok n rows \<longleftrightarrow> list_all (list_all (\<lambda>ir. Id ir < n)) rows"

text \<open>A label vector of length \<open>n\<close> with every label in \<open>[0, k)\<close>.\<close>

definition labels_ok :: "nat \<Rightarrow> nat \<Rightarrow> nat list \<Rightarrow> bool" where
  "labels_ok n k cl \<longleftrightarrow> length cl = n \<and> list_all (\<lambda>c. c < k) cl"

text \<open>
  The training set of the data model: one adjacency list per user and per item, indices
  within the counts, and identifier maps that cover exactly the dense indices.
\<close>

definition wf_trainset :: "TrainSet \<Rightarrow> bool" where
  "wf_trainset ts \<longleftrightarrow>
     length (UserRatings ts) = UserCount ts \<and> length (ItemRatings ts) = ItemCount ts \<and>
     ratings_ok (ItemCount ts) (UserRatings ts) \<and> ratings_ok (UserCount ts) (ItemRatings ts) \<and>
     length (TrainUserIdSet ts) = UserCount ts \<and> length (TrainItemIdSet ts) = ItemCount ts"

text \<open>The shape of the estimator's state for \<open>k\<close> user clusters, \<open>l\<close> item clusters,
  \<open>u\<close> users and \<open>n\<close> items.\<close>

definition fitted :: "nat \<Rightarrow> nat \<Rightarrow> nat \<Rightarrow> nat \<Rightarrow> CoClustering \<Rightarrow> bool" where
  "fitted k l u n coc \<longleftrightarrow>
     length (UserIdSet coc) = u \<and> length (ItemIdSet coc) = n \<and>
     length (UserMeans coc) = u \<and> length (ItemMeans coc) = n \<and>
     labels_ok u k (UserClusters coc) \<and> labels_ok n l (ItemClusters coc) \<and>
     length (UserClusterMeans coc) = k \<and> length (ItemClusterMeans coc) = l \<and>
     mat_shape k l (CoClusterMeans coc)"

text \<open>
  What the spec says of the seeded generator: \<open>MakeUniformVectorInt(n, 0, hi)\<close> returns
  \<open>n\<close> integers in \<open>[0, hi)\<close>.
\<close>

definition uniform_ok :: "('r \<Rightarrow> nat \<Rightarrow> int \<Rightarrow> int \<Rightarrow> nat list \<times> 'r) \<Rightarrow> bool" where
  "uniform_ok mk \<longleftrightarrow> (\<forall>r n hi. 0 < hi \<longrightarrow> labels_ok n (nat hi) (fst (mk r n 0 hi)))"

section \<open>Concrete inputs\<close>

text \<open>A generator without state that deals the labels in turn: \<open>0, 1, ..., hi - 1, 0, ...\<close>.\<close>

definition round_robin :: "unit \<Rightarrow> nat \<Rightarrow> int \<Rightarrow> int \<Rightarrow> nat list \<times> unit" where
  "round_robin r n lo hi = (map (\<lambda>i. nat lo + i mod nat (hi - lo)) [0..<n], r)"

definition config :: "int \<Rightarrow> int \<Rightarrow> int \<Rightarrow> Params" where
  "config k l e = [(''nUserClusters'', k), (''nItemClusters'', l), (''nEpochs'', e)]"

text \<open>
  Two observations: user \<open>10\<close> rates item \<open>100\<close> with \<open>5\<close>, user \<open>20\<close> rates item \<open>200\<close>
  with \<open>1\<close>.
\<close>

definition two_blocks :: TrainSet where
  "two_blocks =
     \<lparr>UserCount = 2, ItemCount = 2, TrainGlobalMean = Fin 3,
      UserRatings = [[\<lparr>Id = 0, Rating = Fin 5\<rparr>], [\<lparr>Id = 1, Rating = Fin 1\<rparr>]],
      ItemRatings = [[\<lparr>Id = 0, Rating = Fin 5\<rparr>], [\<lparr>Id = 1, Rating = Fin 1\<rparr>]],
      TrainUserIdSet = [10, 20], TrainItemIdSet = [100, 200]\<rparr>"


section \<open>Auxiliary notions for the statements\<close>




text \<open>
  The states that \<open>Fit\<close> computes on the concrete inputs: \<open>two_blocks\<close> after one epoch
  with two clusters on each side, \<open>two_blocks\<close> with a negative number of epochs, and the
  empty training set after two epochs with three clusters on each side.
\<close>

definition two_blocks_fitted :: CoClustering where
  "two_blocks_fitted =
     \<lparr>Params = config 2 2 1, UserIdSet = [10, 20], ItemIdSet = [100, 200],
      GlobalMean = Fin 3, UserMeans = [Fin 5, Fin 1], ItemMeans = [Fin 5, Fin 1],
      UserClusters = [0, 1], ItemClusters = [0, 1],
      UserClusterMeans = [Fin 5, Fin 1], ItemClusterMeans = [Fin 5, Fin 1],
      CoClusterMeans = [[Fin 5, NaN], [NaN, Fin 1]]\<rparr>"













section \<open>Notions for the analysis of an epoch\<close>













section \<open>Basic facts\<close>

subsection \<open>The error monad and the bounds-checked slices\<close>

lemma bindE_Inr_iff: "bindE m f = Inr y \<longleftrightarrow> (\<exists>x. m = Inr x \<and> f x = Inr y)"
  by (cases m) auto


lemma foldE_inv:
  assumes "P s"
    and "\<And>x s. x \<in> set xs \<Longrightarrow> P s \<Longrightarrow> \<exists>s'. f x s = Inr s' \<and> P s'"
  shows "\<exists>s'. foldE f xs s = Inr s' \<and> P s'"
  using assms
proof (induction xs arbitrary: s)
  case Nil
  then show ?case by simp
next
  case (Cons x xs)
  from Cons.prems obtain s1 where s1: "f x s = Inr s1" "P s1"
    by (meson list.set_intros(1))
  have "\<exists>s'. foldE f xs s1 = Inr s' \<and> P s'"
    by (rule Cons.IH[OF s1(2)]) (simp add: Cons.prems(2))
  with s1 show ?case by simp
qed


lemma nthE_Inr_iff: "nthE xs i = Inr v \<longleftrightarrow> i < length xs \<and> v = xs ! i"
  by (auto simp: nthE_def)

lemma updE_Inr_iff: "updE xs i f = Inr ys \<longleftrightarrow> i < length xs \<and> ys = xs[i := f (xs ! i)]"
  by (auto simp: updE_def)

lemma nth2E_Inr_iff: "nth2E m i j = Inr v \<longleftrightarrow> i < length m \<and> j < length (m ! i) \<and> v = m ! i ! j"
  by (auto simp: nth2E_def bindE_Inr_iff nthE_Inr_iff)

lemma upd2E_Inr_iff:
  "upd2E m i j f = Inr m' \<longleftrightarrow>
     i < length m \<and> j < length (m ! i) \<and> m' = m[i := (m ! i)[j := f (m ! i ! j)]]"
  by (auto simp: upd2E_def bindE_Inr_iff nthE_Inr_iff updE_Inr_iff)

lemma mat_shape_nth: "mat_shape r c m \<Longrightarrow> i < r \<Longrightarrow> length (m ! i) = c"
  by (auto simp: mat_shape_def list_all_length)

lemma mat_shape_length: "mat_shape r c m \<Longrightarrow> length m = r"
  by (simp add: mat_shape_def)

lemma mat_shape_update:
  "mat_shape r c m \<Longrightarrow> length row = c \<Longrightarrow> mat_shape r c (m[i := row])"
  by (cases "i < length m") (auto simp: mat_shape_def list_all_length nth_list_update)

lemma mat_shape_replicate: "mat_shape r c (replicate r (replicate c x))"
  by (simp add: mat_shape_def list_all_length)

lemma upd2E_shape:
  "mat_shape r c m \<Longrightarrow> i < r \<Longrightarrow> j < c \<Longrightarrow> \<exists>m'. upd2E m i j f = Inr m' \<and> mat_shape r c m'"
  by (simp add: upd2E_Inr_iff mat_shape_nth mat_shape_length mat_shape_update)

lemma nth2E_shape: "mat_shape r c m \<Longrightarrow> i < r \<Longrightarrow> j < c \<Longrightarrow> \<exists>v. nth2E m i j = Inr v"
  by (simp add: nth2E_Inr_iff mat_shape_nth mat_shape_length)

subsection \<open>Fit returns on well-formed inputs\<close>

lemma clusterMean_add_ok:
  assumes "length dst = n" "length count = n" "cluster < n"
  shows "\<exists>d c. clusterMean_add cluster ir (dst, count) = Inr (d, c) \<and> length d = n \<and> length c = n"
  using assms by (simp add: clusterMean_add_def updE_def)

lemma clusterMean_ok:
  assumes len: "length clusters \<le> length idRatings"
    and rng: "\<forall>c\<in>set clusters. c < length dst"
  shows "\<exists>d. clusterMean dst clusters idRatings = Inr d \<and> length d = length dst"
proof -
  let ?P = "\<lambda>acc :: float64 list \<times> float64 list. length (fst acc) = length dst \<and> length (snd acc) = length dst"
  let ?f = "\<lambda>(id, cluster) acc.
              bindE (nthE idRatings id) (\<lambda>row. foldE (clusterMean_add cluster) row acc)"
  have step: "\<exists>s'. ?f x s = Inr s' \<and> ?P s'"
    if x: "x \<in> set (enumerate 0 clusters)" and s: "?P s" for x s
  proof -
    obtain id cluster where xeq: "x = (id, cluster)" by (cases x)
    from x xeq have id: "id < length clusters" and cl: "cluster = clusters ! id"
      by (auto simp: in_set_enumerate_eq)
    then have cl': "cluster < length dst" using rng by auto
    have "\<exists>s'. foldE (clusterMean_add cluster) (idRatings ! id) s = Inr s' \<and> ?P s'"
    proof (rule foldE_inv[where P = ?P, OF s])
      fix ir s0 assume "?P s0"
      then show "\<exists>s'. clusterMean_add cluster ir s0 = Inr s' \<and> ?P s'"
        using clusterMean_add_ok[of "fst s0" "length dst" "snd s0" cluster ir] cl'
        by (cases s0) auto
    qed
    then show ?thesis using id len by (simp add: xeq nthE_def)
  qed
  have "\<exists>s'. foldE ?f (enumerate 0 clusters) (resetZeroVector dst, replicate (length dst) (Fin 0)) = Inr s' \<and> ?P s'"
  proof (rule foldE_inv[where P = ?P])
    show "?P (resetZeroVector dst, replicate (length dst) (Fin 0))"
      by (simp add: resetZeroVector_def)
  qed (rule step)
  then obtain d c where "foldE ?f (enumerate 0 clusters) (resetZeroVector dst, replicate (length dst) (Fin 0)) = Inr (d, c)"
    "length d = length dst" "length c = length dst" by auto
  then show ?thesis by (simp add: clusterMean_def floats_Div_def)
qed

lemma ratings_okD: "ratings_ok n rows \<Longrightarrow> i < length rows \<Longrightarrow> ir \<in> set (rows ! i) \<Longrightarrow> Id ir < n"
  by (auto simp: ratings_ok_def list_all_length in_set_conv_nth)

lemma labels_okD: "labels_ok n k cl \<Longrightarrow> i < n \<Longrightarrow> cl ! i < k"
  by (auto simp: labels_ok_def list_all_length)

lemma labels_ok_length: "labels_ok n k cl \<Longrightarrow> length cl = n"
  by (simp add: labels_ok_def)

lemma newZeroMatrix_ok:
  "0 \<le> c \<Longrightarrow> newZeroMatrix (int r) c = Inr (replicate r (replicate (nat c) (Fin 0)))"
  by (simp add: newZeroMatrix_def)

lemma newZeroMatrix_ok':
  "0 \<le> r \<Longrightarrow> newZeroMatrix r (int c) = Inr (replicate (nat r) (replicate c (Fin 0)))"
  by (simp add: newZeroMatrix_def)

lemma coClusterMean_add_ok:
  assumes "mat_shape k l dst" "mat_shape k l count" "userCluster < k"
    and "Id ir < length itemClusters" "itemClusters ! Id ir < l"
  shows "\<exists>d c. coClusterMean_add itemClusters userCluster ir (dst, count) = Inr (d, c)
           \<and> mat_shape k l d \<and> mat_shape k l c"
proof -
  obtain c where c: "upd2E count userCluster (itemClusters ! Id ir) (\<lambda>c. fadd c (Fin 1)) = Inr c"
    "mat_shape k l c" using upd2E_shape[OF assms(2,3,5)] by blast
  obtain d where d: "upd2E dst userCluster (itemClusters ! Id ir) (\<lambda>v. fadd v (Rating ir)) = Inr d"
    "mat_shape k l d" using upd2E_shape[OF assms(1,3,5)] by blast
  show ?thesis using assms(4) c d by (simp add: coClusterMean_add_def nthE_def)
qed

lemma matrix_div_ok:
  assumes "mat_shape k l dst" "mat_shape k l count"
  shows "\<exists>d. matrix_div dst count = Inr d \<and> mat_shape k l d"
  unfolding matrix_div_def
proof (rule foldE_inv[where P = "mat_shape k l"])
  show "mat_shape k l dst" by fact
next
  fix i and d :: "float64 list list"
  assume i: "i \<in> set [0..<length dst]" and d: "mat_shape k l d"
  from i assms have ik: "i < k" by (simp add: mat_shape_length)
  have "\<exists>d'. foldE (\<lambda>j d. bindE (nth2E count i j) (\<lambda>c. upd2E d i j (\<lambda>v. fdiv v c)))
          [0..<length (d ! i)] d = Inr d' \<and> mat_shape k l d'"
  proof (rule foldE_inv[where P = "mat_shape k l", OF d])
    fix j and e :: "float64 list list"
    assume "j \<in> set [0..<length (d ! i)]" and e: "mat_shape k l e"
    then have jl: "j < l" using mat_shape_nth[OF d ik] by simp
    obtain c where "nth2E count i j = Inr c" using nth2E_shape[OF assms(2) ik jl] by blast
    then show "\<exists>s'. bindE (nth2E count i j) (\<lambda>c. upd2E e i j (\<lambda>v. fdiv v c)) = Inr s' \<and> mat_shape k l s'"
      using upd2E_shape[OF e ik jl] by simp
  qed
  then show "\<exists>s'. bindE (nthE d i) (\<lambda>row.
              foldE (\<lambda>j d. bindE (nth2E count i j) (\<lambda>c. upd2E d i j (\<lambda>v. fdiv v c)))
                [0..<length row] d) = Inr s' \<and> mat_shape k l s'"
    using ik d by (simp add: nthE_def mat_shape_length)
qed

lemma mat_shape_resetZeroMatrix: "mat_shape k l m \<Longrightarrow> mat_shape k l (resetZeroMatrix m)"
  by (simp add: mat_shape_def resetZeroMatrix_def resetZeroVector_def list_all_length)

lemma coClusterMean_ok:
  assumes dst: "mat_shape k l dst" and k: "0 < k"
    and uc: "labels_ok u k userClusters" and ic: "labels_ok n l itemClusters"
    and len: "length userRatings = u" and ok: "ratings_ok n userRatings"
  shows "\<exists>m. coClusterMean dst userClusters itemClusters userRatings = Inr m \<and> mat_shape k l m"
proof -
  let ?P = "\<lambda>acc :: float64 list list \<times> float64 list list.
              mat_shape k l (fst acc) \<and> mat_shape k l (snd acc)"
  let ?f = "\<lambda>(userId, userCluster) acc.
              bindE (nthE userRatings userId) (\<lambda>row.
                foldE (coClusterMean_add itemClusters userCluster) row acc)"
  let ?count = "replicate k (replicate l (Fin 0))"
  have d0: "nthE dst 0 = Inr (dst ! 0)" "length (dst ! 0) = l" "length dst = k"
    using dst k by (simp_all add: nthE_def mat_shape_length mat_shape_nth)
  have cnt: "newZeroMatrix (int (length dst)) (int (length (dst ! 0))) = Inr ?count"
    using d0 by (simp add: newZeroMatrix_def)
  have step: "\<exists>s'. ?f x s = Inr s' \<and> ?P s'"
    if x: "x \<in> set (enumerate 0 userClusters)" and s: "?P s" for x s
  proof -
    obtain userId userCluster where xeq: "x = (userId, userCluster)" by (cases x)
    from x xeq uc have id: "userId < u" and cl: "userCluster < k"
      by (auto simp: in_set_enumerate_eq labels_ok_def list_all_length)
    have "\<exists>s'. foldE (coClusterMean_add itemClusters userCluster) (userRatings ! userId) s = Inr s' \<and> ?P s'"
    proof (rule foldE_inv[where P = ?P, OF s])
      fix ir s0 assume ir: "ir \<in> set (userRatings ! userId)" and s0: "?P s0"
      have idn: "Id ir < n" using ratings_okD[OF ok _ ir] id len by simp
      then have "Id ir < length itemClusters" "itemClusters ! Id ir < l"
        using ic by (simp_all add: labels_ok_length labels_okD)
      then show "\<exists>s'. coClusterMean_add itemClusters userCluster ir s0 = Inr s' \<and> ?P s'"
        using coClusterMean_add_ok[of k l "fst s0" "snd s0" userCluster ir itemClusters] s0 cl
        by (cases s0) auto
    qed
    then show ?thesis using id len by (simp add: xeq nthE_def)
  qed
  have "\<exists>s'. foldE ?f (enumerate 0 userClusters) (resetZeroMatrix dst, ?count) = Inr s' \<and> ?P s'"
  proof (rule foldE_inv[where P = ?P])
    show "?P (resetZeroMatrix dst, ?count)"
      using dst by (simp add: mat_shape_resetZeroMatrix mat_shape_replicate)
  qed (rule step)
  then obtain d c where dc: "foldE ?f (enumerate 0 userClusters) (resetZeroMatrix dst, ?count) = Inr (d, c)"
    "mat_shape k l d" "mat_shape k l c" by auto
  from matrix_div_ok[OF dc(2,3)] show ?thesis
    using dc(1) by (simp add: coClusterMean_def d0(1) cnt)
qed

lemma Fit_tmp1_ok:
  assumes len: "length userRatings = u" and ok: "ratings_ok n userRatings"
    and um: "length userMeans = u" and im: "length itemMeans = n"
  shows "\<exists>t. Fit_tmp1 u n userRatings userMeans itemMeans = Inr t \<and> mat_shape u n t"
proof -
  let ?body = "\<lambda>i idRating tmp1.
           bindE (nthE userMeans i) (\<lambda>um.
           bindE (nthE itemMeans (Id idRating)) (\<lambda>im.
           upd2E tmp1 i (Id idRating) (\<lambda>_. fsub (fsub (Rating idRating) um) im)))"
  let ?f = "\<lambda>i tmp1. bindE (nthE userRatings i) (\<lambda>row. foldE (?body i) row tmp1)"
  let ?t0 = "replicate u (replicate n NaN)"
  have "\<exists>t. foldE ?f [0..<length ?t0] ?t0 = Inr t \<and> mat_shape u n t"
  proof (rule foldE_inv[where P = "mat_shape u n"])
    show "mat_shape u n ?t0" by (rule mat_shape_replicate)
  next
    fix i and t :: "float64 list list"
    assume "i \<in> set [0..<length ?t0]" and t: "mat_shape u n t"
    then have i: "i < u" by simp
    have "\<exists>t'. foldE (?body i) (userRatings ! i) t = Inr t' \<and> mat_shape u n t'"
    proof (rule foldE_inv[where P = "mat_shape u n", OF t])
      fix ir and t1 :: "float64 list list"
      assume ir: "ir \<in> set (userRatings ! i)" and t1: "mat_shape u n t1"
      have idn: "Id ir < n" using ratings_okD[OF ok _ ir] i len by simp
      show "\<exists>s'. ?body i ir t1 = Inr s' \<and> mat_shape u n s'"
        using upd2E_shape[OF t1 i idn] i idn um im by (simp add: nthE_def)
    qed
    then show "\<exists>s'. ?f i t = Inr s' \<and> mat_shape u n s'"
      using i len by (simp add: nthE_def)
  qed
  then show ?thesis by (simp add: Fit_tmp1_def newNanMatrix_def)
qed

lemma tmp2_add_ok:
  assumes "mat_shape u l tmp2" "mat_shape u l count2" "mat_shape u n tmp1" "i < u"
    and "Id ir < n" "labels_ok n l itemClusters"
  shows "\<exists>t c. tmp2_add itemClusters tmp1 i ir (tmp2, count2) = Inr (t, c)
           \<and> mat_shape u l t \<and> mat_shape u l c"
proof -
  have h: "itemClusters ! Id ir < l" "Id ir < length itemClusters"
    using assms(5,6) by (simp_all add: labels_okD labels_ok_length)
  obtain v where v: "nth2E tmp1 i (Id ir) = Inr v"
    using nth2E_shape[OF assms(3,4,5)] by blast
  obtain t where t: "upd2E tmp2 i (itemClusters ! Id ir) (\<lambda>x. fadd x v) = Inr t" "mat_shape u l t"
    using upd2E_shape[OF assms(1,4) h(1)] by blast
  obtain c where c: "upd2E count2 i (itemClusters ! Id ir) (\<lambda>c. fadd c (Fin 1)) = Inr c" "mat_shape u l c"
    using upd2E_shape[OF assms(2,4) h(1)] by blast
  show ?thesis using h(2) v t c by (simp add: tmp2_add_def nthE_def)
qed

lemma tmp2_norm_ok:
  assumes "mat_shape u l tmp2" "mat_shape u l count2" "i < u" "h < l" "length icm = l"
  shows "\<exists>t. tmp2_norm count2 icm i h tmp2 = Inr t \<and> mat_shape u l t"
proof -
  obtain c where c: "nth2E count2 i h = Inr c" using nth2E_shape[OF assms(2,3,4)] by blast
  obtain t where t: "upd2E tmp2 i h (\<lambda>v. fdiv v c) = Inr t" "mat_shape u l t"
    using upd2E_shape[OF assms(1,3,4)] by blast
  obtain t' where t': "upd2E t i h (\<lambda>v. fadd v (icm ! h)) = Inr t'" "mat_shape u l t'"
    using upd2E_shape[OF t(2) assms(3,4)] by blast
  show ?thesis using c t t' assms(4,5) by (simp add: tmp2_norm_def nthE_def)
qed

lemma Fit_tmp2_ok:
  assumes l: "0 \<le> l" and len: "length userRatings = u" and ok: "ratings_ok n userRatings"
    and ic: "labels_ok n (nat l) itemClusters" and icm: "length icm = nat l"
    and t1: "mat_shape u n tmp1"
  shows "\<exists>t. Fit_tmp2 u l userRatings itemClusters icm tmp1 = Inr t \<and> mat_shape u (nat l) t"
proof -
  let ?P = "\<lambda>acc :: float64 list list \<times> float64 list list.
              mat_shape u (nat l) (fst acc) \<and> mat_shape u (nat l) (snd acc)"
  let ?f = "\<lambda>i (tmp2, count2).
              bindE (nthE userRatings i) (\<lambda>row.
              bindE (foldE (tmp2_add itemClusters tmp1 i) row (tmp2, count2)) (\<lambda>(tmp2, count2).
              bindE (nthE tmp2 i) (\<lambda>trow.
              bindE (foldE (tmp2_norm count2 icm i) [0..<length trow] tmp2) (\<lambda>tmp2.
              Inr (tmp2, count2)))))"
  let ?z = "replicate u (replicate (nat l) (Fin 0))"
  have step: "\<exists>s'. ?f i s = Inr s' \<and> ?P s'" if i: "i \<in> set [0..<length ?z]" and s: "?P s" for i s
  proof -
    from i have iu: "i < u" by simp
    have "\<exists>s'. foldE (tmp2_add itemClusters tmp1 i) (userRatings ! i) s = Inr s' \<and> ?P s'"
    proof (rule foldE_inv[where P = ?P, OF s])
      fix ir s0 assume ir: "ir \<in> set (userRatings ! i)" and s0: "?P s0"
      have idn: "Id ir < n" using ratings_okD[OF ok _ ir] iu len by simp
      show "\<exists>s'. tmp2_add itemClusters tmp1 i ir s0 = Inr s' \<and> ?P s'"
        using tmp2_add_ok[of u "nat l" "fst s0" "snd s0" n tmp1 i ir itemClusters] s0 t1 iu idn ic
        by (cases s0) auto
    qed
    then obtain t c where tc: "foldE (tmp2_add itemClusters tmp1 i) (userRatings ! i) s = Inr (t, c)"
      "mat_shape u (nat l) t" "mat_shape u (nat l) c" by auto
    have "\<exists>t'. foldE (tmp2_norm c icm i) [0..<length (t ! i)] t = Inr t' \<and> mat_shape u (nat l) t'"
    proof (rule foldE_inv[where P = "mat_shape u (nat l)", OF tc(2)])
      fix h and t0 :: "float64 list list"
      assume "h \<in> set [0..<length (t ! i)]" and t0: "mat_shape u (nat l) t0"
      then have "h < nat l" using mat_shape_nth[OF tc(2) iu] by simp
      then show "\<exists>s'. tmp2_norm c icm i h t0 = Inr s' \<and> mat_shape u (nat l) s'"
        using tmp2_norm_ok[OF t0 tc(3) iu _ icm] by blast
    qed
    then show ?thesis
      using iu len tc by (cases s) (auto simp: nthE_def mat_shape_length)
  qed
  have "\<exists>s'. foldE ?f [0..<length ?z] (?z, ?z) = Inr s' \<and> ?P s'"
  proof (rule foldE_inv[where P = ?P])
    show "?P (?z, ?z)" by (simp add: mat_shape_replicate)
  qed (rule step)
  then show ?thesis
    using l by (auto simp: Fit_tmp2_def newZeroMatrix_ok)
qed

lemma cost_step_ok:
  assumes "nth2E t a b = Inr x" "nth2E ccm g h = Inr c" "nthE m k = Inr y"
  shows "\<exists>c'. bindE (nth2E t a b) (\<lambda>t.
        if \<not> is_nan t then
          bindE (nth2E ccm g h) (\<lambda>c.
          bindE (nthE m k) (\<lambda>m.
          let temp = fadd (fsub t c) m in Inr (fadd cost (fmul temp temp))))
        else Inr cost) = Inr c'"
  using assms by (simp add: Let_def)

lemma user_cost_ok:
  assumes "mat_shape u (nat l) tmp2" "i < u" "mat_shape k (nat l) ccm" "g < k" "length ucm = k"
  shows "\<exists>c. user_cost tmp2 ccm ucm l i g = Inr c"
proof -
  have "\<exists>c. user_cost tmp2 ccm ucm l i g = Inr c \<and> True"
    unfolding user_cost_def
  proof (rule foldE_inv[where P = "\<lambda>_. True"])
    fix h and cost :: float64
    assume "h \<in> set [0..<nat l]"
    then have h: "h < nat l" by simp
    obtain x where x: "nth2E tmp2 i h = Inr x" using nth2E_shape[OF assms(1,2) h] by blast
    obtain c where c: "nth2E ccm g h = Inr c" using nth2E_shape[OF assms(3,4) h] by blast
    have m: "nthE ucm g = Inr (ucm ! g)" using assms(4,5) by (simp add: nthE_def)
    from cost_step_ok[OF x c m]
    show "\<exists>s'. bindE (nth2E tmp2 i h) (\<lambda>t.
        if \<not> is_nan t then
          bindE (nth2E ccm g h) (\<lambda>c.
          bindE (nthE ucm g) (\<lambda>m.
          let temp = fadd (fsub t c) m in Inr (fadd cost (fmul temp temp))))
        else Inr cost) = Inr s' \<and> True" by simp
  qed simp
  then show ?thesis by simp
qed

lemma item_cost_ok:
  assumes "mat_shape (nat k) n tmp3" "j < n" "mat_shape (nat k) l ccm" "h < l" "length icm = l"
  shows "\<exists>c. item_cost tmp3 ccm icm k j h = Inr c"
proof -
  have "\<exists>c. item_cost tmp3 ccm icm k j h = Inr c \<and> True"
    unfolding item_cost_def
  proof (rule foldE_inv[where P = "\<lambda>_. True"])
    fix g and cost :: float64
    assume "g \<in> set [0..<nat k]"
    then have g: "g < nat k" by simp
    obtain x where x: "nth2E tmp3 g j = Inr x" using nth2E_shape[OF assms(1) g assms(2)] by blast
    obtain c where c: "nth2E ccm g h = Inr c" using nth2E_shape[OF assms(3) g assms(4)] by blast
    have m: "nthE icm h = Inr (icm ! h)" using assms(4,5) by (simp add: nthE_def)
    from cost_step_ok[OF x c m]
    show "\<exists>s'. bindE (nth2E tmp3 g j) (\<lambda>t.
        if \<not> is_nan t then
          bindE (nth2E ccm g h) (\<lambda>c.
          bindE (nthE icm h) (\<lambda>m.
          let temp = fadd (fsub t c) m in Inr (fadd cost (fmul temp temp))))
        else Inr cost) = Inr s' \<and> True" by simp
  qed simp
  then show ?thesis by simp
qed

lemma reassign_ok:
  assumes "\<And>g. g < nat k \<Longrightarrow> \<exists>c. cost g = Inr c"
  shows "\<exists>b. reassign cost k cur = Inr b \<and> (b = cur \<or> b < nat k)"
proof -
  let ?P = "\<lambda>acc :: nat \<times> float64. fst acc = cur \<or> fst acc < nat k"
  have "\<exists>s'. foldE (best_step cost) [0..<nat k] (cur, PInf) = Inr s' \<and> ?P s'"
  proof (rule foldE_inv[where P = ?P])
    fix g s assume "g \<in> set [0..<nat k]" and s: "?P s"
    then have g: "g < nat k" by simp
    from assms[OF g] obtain c where "cost g = Inr c" by blast
    then show "\<exists>s'. best_step cost g s = Inr s' \<and> ?P s'"
      using s g by (cases s) (auto simp: best_step_def)
  qed simp
  then show ?thesis by (auto simp: reassign_def)
qed

lemma labels_ok_update: "labels_ok n k cl \<Longrightarrow> b < k \<Longrightarrow> labels_ok n k (cl[i := b])"
  by (cases "i < length cl") (auto simp: labels_ok_def list_all_length nth_list_update)

lemma sweep_ok:
  assumes cl: "labels_ok n (nat k) clusters"
    and cost: "\<And>i g. i < n \<Longrightarrow> g < nat k \<Longrightarrow> \<exists>c. cost i g = Inr c"
  shows "\<exists>cl'. sweep cost k clusters = Inr cl' \<and> labels_ok n (nat k) cl'"
  unfolding sweep_def
proof (rule foldE_inv[where P = "labels_ok n (nat k)", OF cl])
  fix i c0 assume "i \<in> set [0..<length clusters]" and c0: "labels_ok n (nat k) c0"
  then have i: "i < n" using cl by (simp add: labels_ok_length)
  obtain b where b: "reassign (cost i) k (c0 ! i) = Inr b" "b = c0 ! i \<or> b < nat k"
    using reassign_ok[of k "cost i" "c0 ! i"] cost[OF i] by blast
  then have "b < nat k" using labels_okD[OF c0 i] by auto
  then show "\<exists>s'. bindE (nthE c0 i) (\<lambda>current.
        bindE (reassign (cost i) k current) (\<lambda>bestCluster.
        updE c0 i (\<lambda>_. bestCluster))) = Inr s' \<and> labels_ok n (nat k) s'"
    using i b(1) c0 by (simp add: nthE_def updE_def labels_ok_length labels_ok_update)
qed

lemma tmp3_add_ok:
  assumes "mat_shape k n tmp3" "mat_shape k n count3" "mat_shape u n tmp1" "j < n"
    and "Id ur < u" "labels_ok u k userClusters"
  shows "\<exists>t c. tmp3_add userClusters tmp1 j ur (tmp3, count3) = Inr (t, c)
           \<and> mat_shape k n t \<and> mat_shape k n c"
proof -
  have g: "userClusters ! Id ur < k" "Id ur < length userClusters"
    using assms(5,6) by (simp_all add: labels_okD labels_ok_length)
  obtain v where v: "nth2E tmp1 (Id ur) j = Inr v"
    using nth2E_shape[OF assms(3,5,4)] by blast
  obtain t where t: "upd2E tmp3 (userClusters ! Id ur) j (\<lambda>x. fadd x v) = Inr t" "mat_shape k n t"
    using upd2E_shape[OF assms(1) g(1) assms(4)] by blast
  obtain c where c: "upd2E count3 (userClusters ! Id ur) j (\<lambda>c. fadd c (Fin 1)) = Inr c" "mat_shape k n c"
    using upd2E_shape[OF assms(2) g(1) assms(4)] by blast
  show ?thesis using g(2) v t c by (simp add: tmp3_add_def nthE_def)
qed

lemma tmp3_norm_ok:
  assumes "mat_shape k n tmp3" "mat_shape k n count3" "g < k" "j < n" "length ucm = k"
  shows "\<exists>t. tmp3_norm count3 ucm j g tmp3 = Inr t \<and> mat_shape k n t"
proof -
  obtain c where c: "nth2E count3 g j = Inr c" using nth2E_shape[OF assms(2,3,4)] by blast
  obtain t where t: "upd2E tmp3 g j (\<lambda>v. fdiv v c) = Inr t" "mat_shape k n t"
    using upd2E_shape[OF assms(1,3,4)] by blast
  obtain t' where t': "upd2E t g j (\<lambda>v. fadd v (ucm ! g)) = Inr t'" "mat_shape k n t'"
    using upd2E_shape[OF t(2) assms(3,4)] by blast
  show ?thesis using c t t' assms(3,5) by (simp add: tmp3_norm_def nthE_def)
qed

lemma Fit_tmp3_ok:
  assumes k: "0 \<le> k" and len: "length itemRatings = n" and ok: "ratings_ok u itemRatings"
    and ic: "length itemClusters = n" and uc: "labels_ok u (nat k) userClusters"
    and ucm: "length ucm = nat k" and t1: "mat_shape u n tmp1"
  shows "\<exists>t. Fit_tmp3 k n itemRatings itemClusters userClusters ucm tmp1 = Inr t
           \<and> mat_shape (nat k) n t"
proof -
  let ?P = "\<lambda>acc :: float64 list list \<times> float64 list list.
              mat_shape (nat k) n (fst acc) \<and> mat_shape (nat k) n (snd acc)"
  let ?f = "\<lambda>j (tmp3, count3).
              bindE (nthE itemRatings j) (\<lambda>col.
              bindE (foldE (tmp3_add userClusters tmp1 j) col (tmp3, count3)) (\<lambda>(tmp3, count3).
              bindE (foldE (tmp3_norm count3 ucm j) [0..<length tmp3] tmp3) (\<lambda>tmp3.
              Inr (tmp3, count3))))"
  let ?z = "replicate (nat k) (replicate n (Fin 0))"
  have step: "\<exists>s'. ?f j s = Inr s' \<and> ?P s'" if j: "j \<in> set [0..<length itemClusters]" and s: "?P s" for j s
  proof -
    from j ic have jn: "j < n" by simp
    have "\<exists>s'. foldE (tmp3_add userClusters tmp1 j) (itemRatings ! j) s = Inr s' \<and> ?P s'"
    proof (rule foldE_inv[where P = ?P, OF s])
      fix ur s0 assume ur: "ur \<in> set (itemRatings ! j)" and s0: "?P s0"
      have idn: "Id ur < u" using ratings_okD[OF ok _ ur] jn len by simp
      show "\<exists>s'. tmp3_add userClusters tmp1 j ur s0 = Inr s' \<and> ?P s'"
        using tmp3_add_ok[of "nat k" n "fst s0" "snd s0" u tmp1 j ur userClusters] s0 t1 jn idn uc
        by (cases s0) auto
    qed
    then obtain t c where tc: "foldE (tmp3_add userClusters tmp1 j) (itemRatings ! j) s = Inr (t, c)"
      "mat_shape (nat k) n t" "mat_shape (nat k) n c" by auto
    have "\<exists>t'. foldE (tmp3_norm c ucm j) [0..<length t] t = Inr t' \<and> mat_shape (nat k) n t'"
    proof (rule foldE_inv[where P = "mat_shape (nat k) n", OF tc(2)])
      fix g and t0 :: "float64 list list"
      assume "g \<in> set [0..<length t]" and t0: "mat_shape (nat k) n t0"
      then have "g < nat k" using mat_shape_length[OF tc(2)] by simp
      then show "\<exists>s'. tmp3_norm c ucm j g t0 = Inr s' \<and> mat_shape (nat k) n s'"
        using tmp3_norm_ok[OF t0 tc(3) _ jn ucm] by blast
    qed
    then show ?thesis
      using jn len tc by (cases s) (auto simp: nthE_def)
  qed
  have "\<exists>s'. foldE ?f [0..<length itemClusters] (?z, ?z) = Inr s' \<and> ?P s'"
  proof (rule foldE_inv[where P = ?P])
    show "?P (?z, ?z)" by (simp add: mat_shape_replicate)
  qed (rule step)
  then show ?thesis
    using k by (auto simp: Fit_tmp3_def newZeroMatrix_ok')
qed

lemma uniform_okD:
  "uniform_ok mk \<Longrightarrow> 0 < hi \<Longrightarrow> mk r n 0 hi = (xs, r') \<Longrightarrow> labels_ok n (nat hi) xs"
  unfolding uniform_ok_def by (metis fst_conv)

lemma Fit_epoch_ok:
  assumes wf: "wf_trainset ts" and k: "0 < k" and l: "0 < l"
    and inv: "fitted (nat k) (nat l) (UserCount ts) (ItemCount ts) coc"
    and t1: "mat_shape (UserCount ts) (ItemCount ts) tmp1"
  shows "\<exists>coc'. Fit_epoch k l ts tmp1 coc = Inr coc'
           \<and> fitted (nat k) (nat l) (UserCount ts) (ItemCount ts) coc'"
proof -
  let ?u = "UserCount ts" and ?n = "ItemCount ts"
  from wf have ur: "length (UserRatings ts) = ?u" "ratings_ok ?n (UserRatings ts)"
    and ir: "length (ItemRatings ts) = ?n" "ratings_ok ?u (ItemRatings ts)"
    by (simp_all add: wf_trainset_def)
  from inv have uc: "labels_ok ?u (nat k) (UserClusters coc)"
    and ic: "labels_ok ?n (nat l) (ItemClusters coc)"
    and lens: "length (UserClusterMeans coc) = nat k" "length (ItemClusterMeans coc) = nat l"
    and ccm0: "mat_shape (nat k) (nat l) (CoClusterMeans coc)"
    by (simp_all add: fitted_def)
  obtain ucm where ucm: "clusterMean (UserClusterMeans coc) (UserClusters coc) (UserRatings ts) = Inr ucm"
    "length ucm = nat k"
    using clusterMean_ok[of "UserClusters coc" "UserRatings ts" "UserClusterMeans coc"] uc ur lens
    by (auto simp: labels_ok_def list_all_iff)
  obtain icm where icm: "clusterMean (ItemClusterMeans coc) (ItemClusters coc) (ItemRatings ts) = Inr icm"
    "length icm = nat l"
    using clusterMean_ok[of "ItemClusters coc" "ItemRatings ts" "ItemClusterMeans coc"] ic ir lens
    by (auto simp: labels_ok_def list_all_iff)
  obtain ccm where ccm: "coClusterMean (CoClusterMeans coc) (UserClusters coc) (ItemClusters coc)
      (UserRatings ts) = Inr ccm" "mat_shape (nat k) (nat l) ccm"
    using coClusterMean_ok[OF ccm0 _ uc ic ur] k by auto
  obtain tmp2 where tmp2: "Fit_tmp2 ?u l (UserRatings ts) (ItemClusters coc) icm tmp1 = Inr tmp2"
    "mat_shape ?u (nat l) tmp2"
    using Fit_tmp2_ok[OF _ ur ic icm(2) t1] l by auto
  obtain uc' where uc': "sweep (user_cost tmp2 ccm ucm l) k (UserClusters coc) = Inr uc'"
    "labels_ok ?u (nat k) uc'"
    using sweep_ok[OF uc, of "user_cost tmp2 ccm ucm l"] user_cost_ok[OF tmp2(2) _ ccm(2) _ ucm(2)]
    by blast
  obtain tmp3 where tmp3: "Fit_tmp3 k ?n (ItemRatings ts) (ItemClusters coc) uc' ucm tmp1 = Inr tmp3"
    "mat_shape (nat k) ?n tmp3"
    using Fit_tmp3_ok[OF _ ir labels_ok_length[OF ic] uc'(2) ucm(2) t1] k by auto
  obtain ic' where ic': "sweep (item_cost tmp3 ccm icm k) l (ItemClusters coc) = Inr ic'"
    "labels_ok ?n (nat l) ic'"
    using sweep_ok[OF ic, of "item_cost tmp3 ccm icm k"] item_cost_ok[OF tmp3(2) _ ccm(2) _ icm(2)]
    by blast
  show ?thesis
    using inv ucm icm ccm tmp2 uc' tmp3 ic' by (simp add: Fit_epoch_def fitted_def)
qed

lemma Fit_epoch_frame:
  assumes "Fit_epoch k l ts tmp1 coc = Inr coc'"
  shows "Params coc' = Params coc \<and> UserIdSet coc' = UserIdSet coc \<and> ItemIdSet coc' = ItemIdSet coc
       \<and> GlobalMean coc' = GlobalMean coc \<and> UserMeans coc' = UserMeans coc
       \<and> ItemMeans coc' = ItemMeans coc"
  using assms by (auto simp: Fit_epoch_def bindE_Inr_iff)

lemma length_means: "length (means a) = length a"
  by (simp add: means_def)

lemma Fit_ok:
  assumes wf: "wf_trainset ts" and mk: "uniform_ok mk"
    and k: "0 < GetInt (Params coc0) ''nUserClusters'' 3"
    and l: "0 < GetInt (Params coc0) ''nItemClusters'' 3"
  shows "\<exists>coc. Fit mk rng coc0 ts = Inr coc
     \<and> fitted (nat (GetInt (Params coc0) ''nUserClusters'' 3))
          (nat (GetInt (Params coc0) ''nItemClusters'' 3)) (UserCount ts) (ItemCount ts) coc
     \<and> Params coc = Params coc0 \<and> UserIdSet coc = TrainUserIdSet ts
     \<and> ItemIdSet coc = TrainItemIdSet ts \<and> GlobalMean coc = TrainGlobalMean ts
     \<and> UserMeans coc = means (UserRatings ts) \<and> ItemMeans coc = means (ItemRatings ts)"
proof -
  let ?k = "GetInt (Params coc0) ''nUserClusters'' 3"
  let ?l = "GetInt (Params coc0) ''nItemClusters'' 3"
  let ?e = "GetInt (Params coc0) ''nEpochs'' 20"
  let ?u = "UserCount ts" and ?n = "ItemCount ts"
  obtain uc r1 where uc: "mk rng ?u 0 ?k = (uc, r1)" by (cases "mk rng ?u 0 ?k")
  obtain ic r2 where ic: "mk r1 ?n 0 ?l = (ic, r2)" by (cases "mk r1 ?n 0 ?l")
  have ucl: "labels_ok ?u (nat ?k) uc" by (rule uniform_okD[OF mk k uc])
  have icl: "labels_ok ?n (nat ?l) ic" by (rule uniform_okD[OF mk l ic])
  from wf have ur: "length (UserRatings ts) = ?u" "ratings_ok ?n (UserRatings ts)"
    and ir: "length (ItemRatings ts) = ?n"
    and ids: "length (TrainUserIdSet ts) = ?u" "length (TrainItemIdSet ts) = ?n"
    by (simp_all add: wf_trainset_def)
  obtain tmp1 where tmp1: "Fit_tmp1 ?u ?n (UserRatings ts) (means (UserRatings ts))
      (means (ItemRatings ts)) = Inr tmp1" "mat_shape ?u ?n tmp1"
    using Fit_tmp1_ok[OF ur, of "means (UserRatings ts)" "means (ItemRatings ts)"] ur ir
    by (auto simp: length_means)
  let ?c0 = "(Base_Fit coc0 ts)\<lparr>GlobalMean := TrainGlobalMean ts,
               UserMeans := means (UserRatings ts), ItemMeans := means (ItemRatings ts),
               UserClusters := uc, ItemClusters := ic,
               UserClusterMeans := replicate (nat ?k) (Fin 0),
               ItemClusterMeans := replicate (nat ?l) (Fin 0),
               CoClusterMeans := replicate (nat ?k) (replicate (nat ?l) (Fin 0))\<rparr>"
  let ?Q = "\<lambda>coc. fitted (nat ?k) (nat ?l) ?u ?n coc
     \<and> Params coc = Params coc0 \<and> UserIdSet coc = TrainUserIdSet ts
     \<and> ItemIdSet coc = TrainItemIdSet ts \<and> GlobalMean coc = TrainGlobalMean ts
     \<and> UserMeans coc = means (UserRatings ts) \<and> ItemMeans coc = means (ItemRatings ts)"
  have "\<exists>coc. foldE (\<lambda>ep. Fit_epoch ?k ?l ts tmp1) [0..<nat ?e] ?c0 = Inr coc \<and> ?Q coc"
  proof (rule foldE_inv[where P = ?Q])
    show "?Q ?c0"
      using ucl icl ur ir ids
      by (simp add: fitted_def Base_Fit_def length_means mat_shape_replicate)
  next
    fix ep coc assume q: "?Q coc"
    then obtain coc' where c': "Fit_epoch ?k ?l ts tmp1 coc = Inr coc'"
      "fitted (nat ?k) (nat ?l) ?u ?n coc'"
      using Fit_epoch_ok[OF wf k l _ tmp1(2)] by blast
    from Fit_epoch_frame[OF c'(1)] q c'
    show "\<exists>s'. Fit_epoch ?k ?l ts tmp1 coc = Inr s' \<and> ?Q s'" by simp
  qed
  then show ?thesis
    using k l uc ic tmp1(1)
    by (simp add: Fit_def Let_def Base_Fit_def make_slice_def newZeroMatrix_def)
qed

subsection \<open>Predict on a state of the right shape\<close>

lemma uniform_ok_round_robin: "uniform_ok round_robin"
  by (simp add: uniform_ok_def round_robin_def labels_ok_def list_all_iff)

lemma ToDenseId_from_bound:
  "ToDenseId_from k ids e = Dense u \<Longrightarrow> k \<le> u \<and> u < k + length ids"
proof (induction ids arbitrary: k)
  case Nil
  then show ?case by simp
next
  case (Cons x xs)
  show ?case
  proof (cases "x = e")
    case True
    with Cons.prems show ?thesis by simp
  next
    case False
    with Cons.prems have "ToDenseId_from (Suc k) xs e = Dense u" by simp
    from Cons.IH[OF this] show ?thesis by simp
  qed
qed

lemma ToDenseId_bound: "ToDenseId ids e = Dense u \<Longrightarrow> u < length ids"
  using ToDenseId_from_bound[of 0 ids e u] by (simp add: ToDenseId_def)

lemma Predict_fitted:
  assumes "fitted k l u n coc"
  shows "Predict coc userId itemId =
     (case (ToDenseId (UserIdSet coc) userId, ToDenseId (ItemIdSet coc) itemId) of
        (Dense a, Dense b) \<Rightarrow>
          Inr (fadd (fsub (fsub (fadd (UserMeans coc ! a) (ItemMeans coc ! b))
                 (UserClusterMeans coc ! (UserClusters coc ! a)))
                 (ItemClusterMeans coc ! (ItemClusters coc ! b)))
                 (CoClusterMeans coc ! (UserClusters coc ! a) ! (ItemClusters coc ! b)))
      | (Dense a, NewId) \<Rightarrow> Inr (UserMeans coc ! a)
      | (NewId, Dense b) \<Rightarrow> Inr (ItemMeans coc ! b)
      | (NewId, NewId) \<Rightarrow> Inr (GlobalMean coc))"
proof (cases "ToDenseId (UserIdSet coc) userId")
  case (Dense a)
  then have a: "a < u" using ToDenseId_bound assms by (fastforce simp: fitted_def)
  from assms have ul: "labels_ok u k (UserClusters coc)" "length (UserMeans coc) = u"
    and il: "labels_ok n l (ItemClusters coc)" "length (ItemMeans coc) = n"
    by (simp_all add: fitted_def)
  have ga: "UserClusters coc ! a < k" "a < length (UserClusters coc)" "a < length (UserMeans coc)"
    using a ul by (simp_all add: labels_okD labels_ok_length)
  show ?thesis
  proof (cases "ToDenseId (ItemIdSet coc) itemId")
    case Dense2: (Dense b)
    then have b: "b < n" using ToDenseId_bound assms by (fastforce simp: fitted_def)
    then have hb: "ItemClusters coc ! b < l" "b < length (ItemClusters coc)" "b < length (ItemMeans coc)"
      using il by (simp_all add: labels_okD labels_ok_length)
    have sh: "mat_shape k l (CoClusterMeans coc)" "length (UserClusterMeans coc) = k"
      "length (ItemClusterMeans coc) = l" using assms by (simp_all add: fitted_def)
    show ?thesis
      using ga hb sh Dense Dense2
      by (simp add: Predict_def nthE_def nth2E_def mat_shape_length mat_shape_nth)
  next
    case NewId
    then show ?thesis using Dense ga by (simp add: Predict_def nthE_def)
  qed
next
  case NewId
  show ?thesis
  proof (cases "ToDenseId (ItemIdSet coc) itemId")
    case (Dense b)
    then have b: "b < n" using ToDenseId_bound assms by (fastforce simp: fitted_def)
    then have "b < length (ItemMeans coc)" using assms by (simp add: fitted_def)
    then show ?thesis using NewId Dense by (simp add: Predict_def nthE_def)
  next
    case NewId2: NewId
    then show ?thesis using NewId by (simp add: Predict_def)
  qed
qed

lemma fadd_zero_right: "fadd x (Fin 0) = x"
  by (cases x) simp_all

lemma fsub_zero_right: "fsub x (Fin 0) = x"
  by (cases x) (simp_all add: fsub_def)

subsection \<open>The concrete inputs are well-formed\<close>

lemma wf_two_blocks: "wf_trainset two_blocks"
  by (simp add: wf_trainset_def two_blocks_def ratings_ok_def)

lemma GetInt_config:
  "GetInt (Params (NewCoClustering (config k l e))) ''nUserClusters'' 3 = k"
  "GetInt (Params (NewCoClustering (config k l e))) ''nItemClusters'' 3 = l"
  "GetInt (Params (NewCoClustering (config k l e))) ''nEpochs'' 20 = e"
  by (simp_all add: GetInt_def NewCoClustering_def config_def)

subsection \<open>Fit fails by a panic of the runtime only\<close>





















subsection \<open>Fit on the concrete inputs, and without an epoch\<close>

lemma Fit_two_blocks:
  "Fit round_robin () (NewCoClustering (config 2 2 1)) two_blocks = Inr two_blocks_fitted"
  by code_simp



lemma Fit_no_epochs:
  assumes wf: "wf_trainset ts" and mk: "uniform_ok mk"
    and k: "0 < GetInt (Params coc0) ''nUserClusters'' 3"
    and l: "0 < GetInt (Params coc0) ''nItemClusters'' 3"
    and e: "GetInt (Params coc0) ''nEpochs'' 20 \<le> 0"
  shows "Fit mk rng coc0 ts =
     Inr (coc0\<lparr>UserIdSet := TrainUserIdSet ts, ItemIdSet := TrainItemIdSet ts,
        GlobalMean := TrainGlobalMean ts,
        UserMeans := means (UserRatings ts), ItemMeans := means (ItemRatings ts),
        UserClusters := fst (mk rng (UserCount ts) 0 (GetInt (Params coc0) ''nUserClusters'' 3)),
        ItemClusters := fst (mk (snd (mk rng (UserCount ts) 0
                                  (GetInt (Params coc0) ''nUserClusters'' 3)))
                          (ItemCount ts) 0 (GetInt (Params coc0) ''nItemClusters'' 3)),
        UserClusterMeans := replicate (nat (GetInt (Params coc0) ''nUserClusters'' 3)) (Fin 0),
        ItemClusterMeans := replicate (nat (GetInt (Params coc0) ''nItemClusters'' 3)) (Fin 0),
        CoClusterMeans := replicate (nat (GetInt (Params coc0) ''nUserClusters'' 3))
              (replicate (nat (GetInt (Params coc0) ''nItemClusters'' 3)) (Fin 0))\<rparr>)"
proof -
  from wf have ur: "length (UserRatings ts) = UserCount ts" "ratings_ok (ItemCount ts) (UserRatings ts)"
    and ir: "length (ItemRatings ts) = ItemCount ts"
    by (simp_all add: wf_trainset_def)
  obtain tmp1 where tmp1: "Fit_tmp1 (UserCount ts) (ItemCount ts) (UserRatings ts)
      (means (UserRatings ts)) (means (ItemRatings ts)) = Inr tmp1"
    using Fit_tmp1_ok[OF ur, of "means (UserRatings ts)" "means (ItemRatings ts)"] ur ir
    by (auto simp: length_means)
  obtain uc r1 where uc: "mk rng (UserCount ts) 0 (GetInt (Params coc0) ''nUserClusters'' 3) = (uc, r1)"
    by (cases "mk rng (UserCount ts) 0 (GetInt (Params coc0) ''nUserClusters'' 3)")
  obtain ic r2 where ic: "mk r1 (ItemCount ts) 0 (GetInt (Params coc0) ''nItemClusters'' 3) = (ic, r2)"
    by (cases "mk r1 (ItemCount ts) 0 (GetInt (Params coc0) ''nItemClusters'' 3)")
  have e0: "nat (GetInt (Params coc0) ''nEpochs'' 20) = 0" using e by simp
  have "Fit mk rng coc0 ts =
     Inr ((Base_Fit coc0 ts)\<lparr>GlobalMean := TrainGlobalMean ts,
        UserMeans := means (UserRatings ts), ItemMeans := means (ItemRatings ts),
        UserClusters := uc, ItemClusters := ic,
        UserClusterMeans := replicate (nat (GetInt (Params coc0) ''nUserClusters'' 3)) (Fin 0),
        ItemClusterMeans := replicate (nat (GetInt (Params coc0) ''nItemClusters'' 3)) (Fin 0),
        CoClusterMeans := replicate (nat (GetInt (Params coc0) ''nUserClusters'' 3))
              (replicate (nat (GetInt (Params coc0) ''nItemClusters'' 3)) (Fin 0))\<rparr>)"
    using k l uc ic tmp1
    by (simp add: Fit_def Let_def Base_Fit_def make_slice_def newZeroMatrix_def e0)
  then show ?thesis by (simp add: uc ic Base_Fit_def)
qed

subsection \<open>Finite means\<close>





text \<open>What the selection loop returns for the costs \<open>c 0, ..., c (n - 1)\<close> and the
  current label \<open>cur\<close>.\<close>

subsection \<open>The selection loop and the sweep\<close>










subsection \<open>The epoch on the concrete inputs\<close>








subsection \<open>Finite residuals and finite statistics\<close>














subsection \<open>The intermediates, cell by cell\<close>






















subsection \<open>The cost as a sum over the observed cells\<close>












subsection \<open>One epoch on a well-formed training set\<close>







section \<open>The claims\<close>

text \<open>
  Claim C1. On an estimator that \<open>Fit\<close> has fitted, \<open>Predict\<close> follows the four-way table:
  user and item known give the sum of the user mean and the item mean, minus the means of
  the user's cluster and of the item's cluster, plus the mean of their block; a known
  user with an unknown item gives the user mean; an unknown user with a known item gives
  the item mean; both unknown give the global mean. No slice access of \<open>Predict\<close> is out
  of range.
\<close>

theorem predict_table:
  assumes "wf_trainset ts" and "uniform_ok mk"
    and "0 < GetInt (Params coc0) ''nUserClusters'' 3"
    and "0 < GetInt (Params coc0) ''nItemClusters'' 3"
    and "Fit mk rng coc0 ts = Inr coc"
  shows "Predict coc userId itemId =
     (case (ToDenseId (TrainUserIdSet ts) userId, ToDenseId (TrainItemIdSet ts) itemId) of
        (Dense u, Dense i) \<Rightarrow>
          Inr (fadd (fsub (fsub (fadd (UserMeans coc ! u) (ItemMeans coc ! i))
                 (UserClusterMeans coc ! (UserClusters coc ! u)))
                 (ItemClusterMeans coc ! (ItemClusters coc ! i)))
                 (CoClusterMeans coc ! (UserClusters coc ! u) ! (ItemClusters coc ! i)))
      | (Dense u, NewId) \<Rightarrow> Inr (UserMeans coc ! u)
      | (NewId, Dense i) \<Rightarrow> Inr (ItemMeans coc ! i)
      | (NewId, NewId) \<Rightarrow> Inr (GlobalMean coc))"
proof -
  from Fit_ok[OF assms(1-4), of rng] assms(5)
  have "fitted (nat (GetInt (Params coc0) ''nUserClusters'' 3))
       (nat (GetInt (Params coc0) ''nItemClusters'' 3)) (UserCount ts) (ItemCount ts) coc"
    and "UserIdSet coc = TrainUserIdSet ts" and "ItemIdSet coc = TrainItemIdSet ts"
    by auto
  then show ?thesis using Predict_fitted[of _ _ _ _ coc userId itemId] by simp
qed

theorem predict_table_witness:
  "wf_trainset two_blocks \<and> uniform_ok round_robin
   \<and> 0 < GetInt (Params (NewCoClustering (config 2 2 1))) ''nUserClusters'' 3
   \<and> 0 < GetInt (Params (NewCoClustering (config 2 2 1))) ''nItemClusters'' 3
   \<and> Fit round_robin () (NewCoClustering (config 2 2 1)) two_blocks = Inr two_blocks_fitted
   \<and> Predict two_blocks_fitted 20 200 = Inr (Fin 1)
   \<and> Predict two_blocks_fitted 20 7 = Inr (Fin 1)
   \<and> Predict two_blocks_fitted 7 100 = Inr (Fin 5)
   \<and> Predict two_blocks_fitted 7 7 = Inr (Fin 3)"
proof -
  have k: "0 < GetInt (Params (NewCoClustering (config 2 2 1))) ''nUserClusters'' 3"
    and l: "0 < GetInt (Params (NewCoClustering (config 2 2 1))) ''nItemClusters'' 3"
    by (simp_all add: GetInt_config)
  note tab = predict_table[OF wf_two_blocks uniform_ok_round_robin k l Fit_two_blocks]
  have "Predict two_blocks_fitted 20 200 = Inr (Fin 1)"
    using tab[of 20 200] by (simp add: two_blocks_def two_blocks_fitted_def ToDenseId_def fsub_def)
  moreover have "Predict two_blocks_fitted 20 7 = Inr (Fin 1)"
    using tab[of 20 7] by (simp add: two_blocks_def two_blocks_fitted_def ToDenseId_def)
  moreover have "Predict two_blocks_fitted 7 100 = Inr (Fin 5)"
    using tab[of 7 100] by (simp add: two_blocks_def two_blocks_fitted_def ToDenseId_def)
  moreover have "Predict two_blocks_fitted 7 7 = Inr (Fin 3)"
    using tab[of 7 7] by (simp add: two_blocks_def two_blocks_fitted_def ToDenseId_def)
  ultimately show ?thesis
    using wf_two_blocks uniform_ok_round_robin k l Fit_two_blocks by simp
qed














text \<open>
  Claim C7. On a well-formed training set, with a generator that draws in \<open>[0, hi)\<close> and
  at least one cluster on each side, \<open>Fit\<close> returns, for every number of epochs, a state
  with one label per user and per item, every user label below \<open>nUserClusters\<close> and every
  item label below \<open>nItemClusters\<close>. Labels are natural numbers, so they are not negative.
\<close>

theorem range_invariant:
  assumes "wf_trainset ts" and "uniform_ok mk"
    and "0 < GetInt (Params coc0) ''nUserClusters'' 3"
    and "0 < GetInt (Params coc0) ''nItemClusters'' 3"
  shows "\<exists>coc. Fit mk rng coc0 ts = Inr coc
     \<and> length (UserClusters coc) = UserCount ts
     \<and> (\<forall>u<UserCount ts. int (UserClusters coc ! u) < GetInt (Params coc0) ''nUserClusters'' 3)
     \<and> length (ItemClusters coc) = ItemCount ts
     \<and> (\<forall>i<ItemCount ts. int (ItemClusters coc ! i) < GetInt (Params coc0) ''nItemClusters'' 3)"
proof -
  from Fit_ok[OF assms, of rng] obtain coc where coc: "Fit mk rng coc0 ts = Inr coc"
    "fitted (nat (GetInt (Params coc0) ''nUserClusters'' 3))
       (nat (GetInt (Params coc0) ''nItemClusters'' 3)) (UserCount ts) (ItemCount ts) coc"
    by blast
  then have u: "labels_ok (UserCount ts) (nat (GetInt (Params coc0) ''nUserClusters'' 3)) (UserClusters coc)"
    and i: "labels_ok (ItemCount ts) (nat (GetInt (Params coc0) ''nItemClusters'' 3)) (ItemClusters coc)"
    by (simp_all add: fitted_def)
  have "\<forall>u<UserCount ts. int (UserClusters coc ! u) < GetInt (Params coc0) ''nUserClusters'' 3"
    using labels_okD[OF u] by fastforce
  moreover have "\<forall>i<ItemCount ts. int (ItemClusters coc ! i) < GetInt (Params coc0) ''nItemClusters'' 3"
    using labels_okD[OF i] by fastforce
  ultimately show ?thesis
    using coc(1) labels_ok_length[OF u] labels_ok_length[OF i] by blast
qed

theorem range_invariant_witness:
  "wf_trainset two_blocks \<and> uniform_ok round_robin
   \<and> 0 < GetInt (Params (NewCoClustering (config 2 2 5))) ''nUserClusters'' 3
   \<and> 0 < GetInt (Params (NewCoClustering (config 2 2 5))) ''nItemClusters'' 3
   \<and> (\<exists>coc. Fit round_robin () (NewCoClustering (config 2 2 5)) two_blocks = Inr coc
     \<and> length (UserClusters coc) = UserCount two_blocks
     \<and> (\<forall>u<UserCount two_blocks. int (UserClusters coc ! u) < 2)
     \<and> length (ItemClusters coc) = ItemCount two_blocks
     \<and> (\<forall>i<ItemCount two_blocks. int (ItemClusters coc ! i) < 2))"
proof -
  have k: "0 < GetInt (Params (NewCoClustering (config 2 2 5))) ''nUserClusters'' 3"
    and l: "0 < GetInt (Params (NewCoClustering (config 2 2 5))) ''nItemClusters'' 3"
    by (simp_all add: GetInt_config)
  show ?thesis
    using range_invariant[OF wf_two_blocks uniform_ok_round_robin k l, of "()"]
      wf_two_blocks uniform_ok_round_robin k l
    by (simp add: GetInt_config)
qed






text \<open>
  Claim C10. With \<open>nEpochs = 0\<close> the clustering loop does not run: the cluster means stay
  zero-filled, the labels are the ones the generator drew, and the prediction for a known
  user \<open>u\<close> and a known item \<open>i\<close> is \<open>UserMeans[u] + ItemMeans[i]\<close>.
\<close>

theorem zero_epochs:
  assumes "wf_trainset ts" and "uniform_ok mk"
    and "0 < GetInt (Params coc0) ''nUserClusters'' 3"
    and "0 < GetInt (Params coc0) ''nItemClusters'' 3"
    and "GetInt (Params coc0) ''nEpochs'' 20 = 0"
  shows "\<exists>coc. Fit mk rng coc0 ts = Inr coc
     \<and> UserClusterMeans coc = replicate (nat (GetInt (Params coc0) ''nUserClusters'' 3)) (Fin 0)
     \<and> ItemClusterMeans coc = replicate (nat (GetInt (Params coc0) ''nItemClusters'' 3)) (Fin 0)
     \<and> CoClusterMeans coc = replicate (nat (GetInt (Params coc0) ''nUserClusters'' 3))
          (replicate (nat (GetInt (Params coc0) ''nItemClusters'' 3)) (Fin 0))
     \<and> UserClusters coc = fst (mk rng (UserCount ts) 0 (GetInt (Params coc0) ''nUserClusters'' 3))
     \<and> ItemClusters coc =
          fst (mk (snd (mk rng (UserCount ts) 0 (GetInt (Params coc0) ''nUserClusters'' 3)))
                 (ItemCount ts) 0 (GetInt (Params coc0) ''nItemClusters'' 3))
     \<and> (\<forall>userId itemId u i.
           ToDenseId (TrainUserIdSet ts) userId = Dense u \<longrightarrow>
           ToDenseId (TrainItemIdSet ts) itemId = Dense i \<longrightarrow>
           Predict coc userId itemId = Inr (fadd (UserMeans coc ! u) (ItemMeans coc ! i)))"
proof -
  let ?k = "nat (GetInt (Params coc0) ''nUserClusters'' 3)"
  let ?l = "nat (GetInt (Params coc0) ''nItemClusters'' 3)"
  from assms(5) have e: "GetInt (Params coc0) ''nEpochs'' 20 \<le> 0" by simp
  note init = Fit_no_epochs[OF assms(1-4) e, of rng]
  from Fit_ok[OF assms(1-4), of rng] obtain coc where coc: "Fit mk rng coc0 ts = Inr coc"
    and fit: "fitted ?k ?l (UserCount ts) (ItemCount ts) coc"
    and ids: "UserIdSet coc = TrainUserIdSet ts" "ItemIdSet coc = TrainItemIdSet ts"
    by blast
  from coc init have z: "UserClusterMeans coc = replicate ?k (Fin 0)"
    "ItemClusterMeans coc = replicate ?l (Fin 0)"
    "CoClusterMeans coc = replicate ?k (replicate ?l (Fin 0))"
    and lab: "UserClusters coc = fst (mk rng (UserCount ts) 0 (GetInt (Params coc0) ''nUserClusters'' 3))"
    "ItemClusters coc =
          fst (mk (snd (mk rng (UserCount ts) 0 (GetInt (Params coc0) ''nUserClusters'' 3)))
                 (ItemCount ts) 0 (GetInt (Params coc0) ''nItemClusters'' 3))"
    by auto
  have pred: "Predict coc userId itemId = Inr (fadd (UserMeans coc ! u) (ItemMeans coc ! i))"
    if u: "ToDenseId (TrainUserIdSet ts) userId = Dense u"
      and i: "ToDenseId (TrainItemIdSet ts) itemId = Dense i" for userId itemId u i
  proof -
    from fit have ul: "labels_ok (UserCount ts) ?k (UserClusters coc)"
      and il: "labels_ok (ItemCount ts) ?l (ItemClusters coc)"
      and lu: "length (UserIdSet coc) = UserCount ts" and li: "length (ItemIdSet coc) = ItemCount ts"
      by (simp_all add: fitted_def)
    have "u < UserCount ts" "i < ItemCount ts"
      using ToDenseId_bound[OF u] ToDenseId_bound[OF i] lu li ids by simp_all
    then have g: "UserClusters coc ! u < ?k" and h: "ItemClusters coc ! i < ?l"
      using labels_okD[OF ul] labels_okD[OF il] by simp_all
    show ?thesis
      using Predict_fitted[OF fit, of userId itemId] u i g h
      by (simp add: ids z fsub_zero_right fadd_zero_right)
  qed
  show ?thesis using coc z lab pred by blast
qed

theorem zero_epochs_witness:
  "wf_trainset two_blocks \<and> uniform_ok round_robin
   \<and> 0 < GetInt (Params (NewCoClustering (config 2 2 0))) ''nUserClusters'' 3
   \<and> 0 < GetInt (Params (NewCoClustering (config 2 2 0))) ''nItemClusters'' 3
   \<and> GetInt (Params (NewCoClustering (config 2 2 0))) ''nEpochs'' 20 = 0
   \<and> (\<exists>coc. Fit round_robin () (NewCoClustering (config 2 2 0)) two_blocks = Inr coc
     \<and> UserClusterMeans coc = [Fin 0, Fin 0] \<and> ItemClusterMeans coc = [Fin 0, Fin 0]
     \<and> CoClusterMeans coc = [[Fin 0, Fin 0], [Fin 0, Fin 0]]
     \<and> UserClusters coc = [0, 1] \<and> ItemClusters coc = [0, 1]
     \<and> Predict coc 10 200 = Inr (fadd (UserMeans coc ! 0) (ItemMeans coc ! 1)))"
proof -
  have k: "0 < GetInt (Params (NewCoClustering (config 2 2 0))) ''nUserClusters'' 3"
    and l: "0 < GetInt (Params (NewCoClustering (config 2 2 0))) ''nItemClusters'' 3"
    and e: "GetInt (Params (NewCoClustering (config 2 2 0))) ''nEpochs'' 20 = 0"
    by (simp_all add: GetInt_config)
  have u: "ToDenseId (TrainUserIdSet two_blocks) 10 = Dense 0"
    and i: "ToDenseId (TrainItemIdSet two_blocks) 200 = Dense 1"
    by (simp_all add: ToDenseId_def two_blocks_def)
  have two: "replicate 2 x = [x, x]" for x :: 'a
    by (simp add: numeral_2_eq_2)
  have rr: "fst (round_robin r 2 0 2) = [0, 1]" for r
    by (simp add: round_robin_def numeral_2_eq_2)
  from zero_epochs[OF wf_two_blocks uniform_ok_round_robin k l e, of "()"]
  obtain coc where fit: "Fit round_robin () (NewCoClustering (config 2 2 0)) two_blocks = Inr coc"
    and z: "UserClusterMeans coc = replicate 2 (Fin 0)" "ItemClusterMeans coc = replicate 2 (Fin 0)"
      "CoClusterMeans coc = replicate 2 (replicate 2 (Fin 0))"
    and lab: "UserClusters coc = fst (round_robin () (UserCount two_blocks) 0 2)"
      "ItemClusters coc = fst (round_robin () (ItemCount two_blocks) 0 2)"
    and p: "\<forall>userId itemId u i.
           ToDenseId (TrainUserIdSet two_blocks) userId = Dense u \<longrightarrow>
           ToDenseId (TrainItemIdSet two_blocks) itemId = Dense i \<longrightarrow>
           Predict coc userId itemId = Inr (fadd (UserMeans coc ! u) (ItemMeans coc ! i))"
    by (auto simp: GetInt_config)
  have "Predict coc 10 200 = Inr (fadd (UserMeans coc ! 0) (ItemMeans coc ! 1))"
    using p u i by blast
  moreover have "UserClusters coc = [0, 1]" "ItemClusters coc = [0, 1]"
    using lab by (simp_all add: two_blocks_def rr)
  ultimately show ?thesis
    using wf_two_blocks uniform_ok_round_robin k l e fit z by (auto simp: two)
qed

end
